theory Spec2Isabelle
  imports Complex_Main "HOL-Library.Word"
begin

section \<open>Speech recognition ponyfill: data model\<close>

text \<open>
  The development embeds \<^verbatim>\<open>createSpeechRecognitionPonyfill\<close>: the audio chunk
  monitor installed on \<^verbatim>\<open>audioConfig.attach\<close>, the factory's guards, and the event
  loop of \<^verbatim>\<open>SpeechRecognition._startOnce\<close> with its caller \<^verbatim>\<open>start\<close>.

  Text is a list of 8-bit characters; a JavaScript string whose code units are all
  below 256 is represented exactly.
\<close>

subsection \<open>Vendor recognition results\<close>

text \<open>One entry of the vendor's \<^verbatim>\<open>NBest\<close> array (see the comment at the head of the source).\<close>

record nbest_entry =
  Confidence :: real
  Lexical :: string
  ITN :: string
  MaskedITN :: string
  Display :: string

text \<open>\<^verbatim>\<open>ResultReason\<close> of the Speech SDK; the loop compares it with \<^verbatim>\<open>NoMatch\<close> only.\<close>

datatype result_reason =
  NoMatch | CanceledReason | RecognizingSpeech | RecognizedSpeech | OtherReason nat

text \<open>
  What \<^verbatim>\<open>serializeRecognitionResult\<close> keeps of a vendor result and the loop reads:
  \<^verbatim>\<open>reason\<close> and the \<^verbatim>\<open>NBest\<close> list of the parsed \<^verbatim>\<open>json\<close>.
\<close>

record sdk_result =
  reason :: result_reason
  NBest :: "nbest_entry list"

subsection \<open>Session events\<close>

text \<open>
  Every object pushed on the queue has exactly one key, so a queued event is a value of
  a datatype with one constructor per key. \<^verbatim>\<open>canceled.errorDetails\<close> may be undefined.
\<close>

datatype session_event =
    AudioSourceReady
  | AudioSourceOff
  | FirstAudibleChunk
  | Canceled "string option"
  | Recognized sdk_result
  | Recognizing sdk_result
  | SessionStarted
  | SessionStopped
  | SpeechStartDetected
  | SpeechEndDetected
  | Abort
  | Stop

subsection \<open>Web Speech results and public events\<close>

record alternative =
  transcript :: string
  confidence :: "real option"

text \<open>A recognition result list: a JavaScript array of alternatives with an \<^verbatim>\<open>isFinal\<close> property.\<close>

record result_list =
  alternatives :: "alternative list"
  isFinal :: bool

text \<open>A failure value: what a rejected promise or a thrown exception carries.\<close>

datatype failure = TypeError | RangeError | ReferenceError | Rejection string

text \<open>
  The \<^verbatim>\<open>error\<close> property of a dispatched \<^verbatim>\<open>ErrorEvent\<close>: one of the loop's error
  codes, or the failure caught by \<^verbatim>\<open>start\<close>.
\<close>

datatype error_value = Code string | Caught failure

datatype public_event =
    Start | End
  | AudioStart | AudioEnd
  | SoundStart | SoundEnd
  | SpeechStart | SpeechEnd
  | Result "result_list list"
  | Error error_value
  | CognitiveServices session_event

text \<open>\<^verbatim>\<open>finalEvent\<close>: absent, an error with its code, or a result with its results.\<close>

datatype final_event = FinalError string | FinalResult "result_list list"

text \<open>Calls made on the recognizer by the loop; the flag says whether the call is awaited.\<close>

datatype recognizer_call = StopContinuousRecognitionAsync bool

subsection \<open>Configuration and state\<close>

datatype text_normalization = DisplayText | ITNText | LexicalText | MaskedITNText

text \<open>
  The properties of the \<^verbatim>\<open>SpeechRecognition\<close> object and the factory options that the
  loop reads.
\<close>

record config =
  continuous :: bool
  interimResults :: bool
  maxAlternatives :: nat
  looseEvents :: bool
  textNormalization :: text_normalization

text \<open>
  The variables of the factory's closure, shared by the audio chunk monitor and every
  session: \<^verbatim>\<open>muted\<close>, and whether \<^verbatim>\<open>onAudibleChunk\<close> holds the callback (armed) or is
  null or undefined. An undefined variable of the source is falsy: \<open>False\<close>, \<open>None\<close>.
\<close>

record closure =
  muted :: bool
  onAudibleChunk :: bool

text \<open>
  A session adds the variables of \<^verbatim>\<open>_startOnce\<close>, everything it has dispatched and
  every call it has made on the recognizer.
\<close>

record state = closure +
  soundStarted :: bool
  speechStarted :: bool
  stopping :: bool
  audioStarted :: bool
  finalEvent :: "final_event option"
  finalizedResults :: "result_list list"
  loop :: nat
  dispatched :: "public_event list"
  calls :: "recognizer_call list"

text \<open>
  What the environment answers to the awaited calls: \<open>None\<close> when the promise resolves,
  \<open>Some f\<close> when it rejects with \<open>f\<close>. For the awaited
  \<^verbatim>\<open>stopContinuousRecognitionAsync\<close> the environment lists the iterations of the loop
  in which the call is rejected, each with its failure.
\<close>

record environment =
  createRecognizer :: "failure option"
  startContinuousRecognitionAsync :: "failure option"
  stopContinuousRecognitionAsync :: "(nat \<times> failure) list"

section \<open>Regular expressions of the loop\<close>

text \<open>
  A pattern is a list of character classes; \<open>regex_test\<close> is \<^verbatim>\<open>RegExp.prototype.test\<close>
  for such a pattern without anchors: a match may start at any position.
\<close>

fun match_here :: "(char \<Rightarrow> bool) list \<Rightarrow> string \<Rightarrow> bool" where
  "match_here [] cs = True"
| "match_here (p # ps) [] = False"
| "match_here (p # ps) (c # cs) = (p c \<and> match_here ps cs)"

fun regex_test :: "(char \<Rightarrow> bool) list \<Rightarrow> string \<Rightarrow> bool" where
  "regex_test ps [] = match_here ps []"
| "regex_test ps (c # cs) = (match_here ps (c # cs) \<or> regex_test ps cs)"

definition literal :: "string \<Rightarrow> (char \<Rightarrow> bool) list" where
  "literal s = map (\<lambda>c d. d = c) s"

text \<open>\<^verbatim>\<open>\s\<close> on code units below 256: tab, LF, VT, FF, CR, space, no-break space.\<close>

definition whitespace :: "char \<Rightarrow> bool" where
  "whitespace c = (of_char c \<in> {9, 10, 11, 12, 13, 32, 160 :: nat})"

text \<open>\<^verbatim>\<open>/Permission\sdenied/u\<close> and \<^verbatim>\<open>/1006/u\<close>.\<close>

definition PermissionDenied :: "(char \<Rightarrow> bool) list" where
  "PermissionDenied = literal ''Permission'' @ [whitespace] @ literal ''denied''"

definition re1006 :: "(char \<Rightarrow> bool) list" where
  "re1006 = literal ''1006''"

section \<open>Recognition result normalizer\<close>

text \<open>
  Modelled from the spec: \<^verbatim>\<open>cognitiveServiceEventResultToWebSpeechRecognitionResultList\<close>
  is imported by the source and is not among the files. The spec (4.3): select the
  configured text rendering for each of the top \<^verbatim>\<open>maxAlternatives\<close> n-best entries, in
  input order; \<^verbatim>\<open>isFinal\<close> reflects whether the result is finalized; if the n-best
  list is empty, the list is a single alternative with an empty transcript.
\<close>

definition rendering :: "text_normalization \<Rightarrow> nbest_entry \<Rightarrow> string" where
  "rendering mode e =
     (case mode of
        DisplayText \<Rightarrow> Display e
      | ITNText \<Rightarrow> ITN e
      | LexicalText \<Rightarrow> Lexical e
      | MaskedITNText \<Rightarrow> MaskedITN e)"

definition cognitiveServiceEventResultToWebSpeechRecognitionResultList ::
  "sdk_result \<Rightarrow> nat \<Rightarrow> text_normalization \<Rightarrow> result_list" where
  "cognitiveServiceEventResultToWebSpeechRecognitionResultList result maxAlt mode =
     \<lparr> alternatives =
         (if NBest result = [] then [\<lparr> transcript = [], confidence = None \<rparr>]
          else map (\<lambda>e. \<lparr> transcript = rendering mode e, confidence = Some (Confidence e) \<rparr>)
                 (take maxAlt (NBest result))),
       isFinal = (reason result = RecognizedSpeech) \<rparr>"

text \<open>
  The loop below takes the normalizer as a parameter, so that what is proved of the
  loop for every normalizer also holds for the one the repository ships.
\<close>

type_synonym normalizer = "sdk_result \<Rightarrow> nat \<Rightarrow> text_normalization \<Rightarrow> result_list"

section \<open>The event loop of \<^verbatim>\<open>_startOnce\<close>\<close>

definition dispatchEvent :: "public_event \<Rightarrow> state \<Rightarrow> state" where
  "dispatchEvent e s = s\<lparr> dispatched := dispatched s @ [e] \<rparr>"

text \<open>
  \<^verbatim>\<open>Object.keys(event).forEach(name => this.emitCognitiveServices(name, event[name]))\<close>:
  one debugging event for the single key of the queued event.
\<close>

definition emitCognitiveServices :: "session_event \<Rightarrow> state \<Rightarrow> state" where
  "emitCognitiveServices event s = dispatchEvent (CognitiveServices event) s"

definition call :: "recognizer_call \<Rightarrow> state \<Rightarrow> state" where
  "call c s = s\<lparr> calls := calls s @ [c] \<rparr>"

text \<open>How one iteration of the loop ends.\<close>

datatype control = Next | Break | Throw failure

text \<open>
  The three guarded dispatches at the head of the \<^verbatim>\<open>recognized || recognizing\<close>
  branch.
\<close>

definition backfill :: "state \<Rightarrow> state" where
  "backfill s =
     (let s1 = (if \<not> audioStarted s
                then (dispatchEvent AudioStart s)\<lparr> audioStarted := True \<rparr> else s);
          s2 = (if \<not> soundStarted s1
                then (dispatchEvent SoundStart s1)\<lparr> soundStarted := True \<rparr> else s1)
      in if \<not> speechStarted s2
         then (dispatchEvent SpeechStart s2)\<lparr> speechStarted := True \<rparr> else s2)"

text \<open>
  The \<^verbatim>\<open>if (recognized)\<close> part. \<^verbatim>\<open>result[0].transcript\<close> is a TypeError when the
  list has no first alternative. Where \<^verbatim>\<open>looseEvents && finalEvent && recognizable\<close> is
  tested, \<^verbatim>\<open>finalEvent\<close> has just been assigned: it is null or a result.
\<close>

definition onRecognized :: "normalizer \<Rightarrow> config \<Rightarrow> sdk_result \<Rightarrow> state \<Rightarrow> control \<times> state" where
  "onRecognized toResultList cfg r s =
     (let result = toResultList r
                     (maxAlternatives cfg) (textNormalization cfg)
      in case alternatives result of
           [] \<Rightarrow> (Throw TypeError, s)
         | alt0 # _ \<Rightarrow>
             let recognizable = (transcript alt0 \<noteq> []);
                 s1 = (if recognizable
                       then (let s' = s\<lparr> finalizedResults := finalizedResults s @ [result] \<rparr>
                             in if continuous cfg
                                then dispatchEvent (Result (finalizedResults s')) s' else s')
                       else s);
                 s2 = (if continuous cfg \<and> recognizable
                       then s1\<lparr> finalEvent := None \<rparr>
                       else s1\<lparr> finalEvent := Some (FinalResult (finalizedResults s1)) \<rparr>);
                 s3 = (if \<not> continuous cfg
                       then call (StopContinuousRecognitionAsync False) s2 else s2)
             in (Next,
                 (case finalEvent s3 of
                    Some (FinalResult rs) \<Rightarrow>
                      if looseEvents cfg \<and> recognizable
                      then (dispatchEvent (Result rs) s3)\<lparr> finalEvent := None \<rparr> else s3
                  | _ \<Rightarrow> s3)))"

definition onRecognizing :: "normalizer \<Rightarrow> config \<Rightarrow> sdk_result \<Rightarrow> state \<Rightarrow> state" where
  "onRecognizing toResultList cfg r s =
     (if interimResults cfg
      then dispatchEvent
             (Result (finalizedResults s @
                [toResultList r
                   (maxAlternatives cfg) (textNormalization cfg)])) s
      else s)"

text \<open>\<^verbatim>\<open>if (!loop) { this.dispatchEvent(new SpeechRecognitionEvent('start')); }\<close>\<close>

definition firstIteration :: "state \<Rightarrow> state" where
  "firstIteration s = (if loop s = 0 then dispatchEvent Start s else s)"

text \<open>The body of the \<^verbatim>\<open>for\<close> loop, for the event that \<^verbatim>\<open>queue.shift()\<close> delivered.\<close>

definition body :: "normalizer \<Rightarrow> config \<Rightarrow> environment \<Rightarrow> session_event \<Rightarrow> state \<Rightarrow> control \<times> state" where
  "body toResultList cfg env event s0 =
     (let s1 = emitCognitiveServices event s0;
          errorMessage = (case event of Canceled d \<Rightarrow> d | _ \<Rightarrow> None)
      in if regex_test PermissionDenied (case errorMessage of None \<Rightarrow> [] | Some m \<Rightarrow> m)
         then (Break, s1\<lparr> finalEvent := Some (FinalError ''not-allowed'') \<rparr>)
         else
           let s2 = firstIteration s1
           in if errorMessage \<noteq> None \<and> errorMessage \<noteq> Some []
              then
                (if regex_test re1006 (the errorMessage)
                 then (Break,
                       (if \<not> audioStarted s2
                        then dispatchEvent AudioEnd (dispatchEvent AudioStart s2)
                        else s2)\<lparr> finalEvent := Some (FinalError ''network'') \<rparr>)
                 else (Break, s2\<lparr> finalEvent := Some (FinalError ''unknown'') \<rparr>))
              else
                (case event of
                   Abort \<Rightarrow>
                     (let s3 = s2\<lparr> finalEvent := Some (FinalError ''aborted''),
                                   stopping := True \<rparr>;
                          s4 = call (StopContinuousRecognitionAsync True) s3
                      in case map_of (stopContinuousRecognitionAsync env) (loop s4) of
                           Some f \<Rightarrow> (Throw f, s4)
                         | None \<Rightarrow> (Next, s4))
                 | Stop \<Rightarrow> (Next, s2\<lparr> muted := True, stopping := True \<rparr>)
                 | AudioSourceReady \<Rightarrow>
                     (Next, (dispatchEvent AudioStart s2)\<lparr> audioStarted := True \<rparr>)
                 | FirstAudibleChunk \<Rightarrow>
                     (Next, (dispatchEvent SoundStart s2)\<lparr> soundStarted := True \<rparr>)
                 | AudioSourceOff \<Rightarrow>
                     (let s3 = s2\<lparr> stopping := True \<rparr>;
                          s4 = (if speechStarted s3 then dispatchEvent SpeechEnd s3 else s3);
                          s5 = (if soundStarted s4 then dispatchEvent SoundEnd s4 else s4);
                          s6 = (if audioStarted s5 then dispatchEvent AudioEnd s5 else s5)
                      in (Break, s6\<lparr> audioStarted := False, soundStarted := False,
                                      speechStarted := False \<rparr>))
                 | Recognized r \<Rightarrow>
                     (if reason r = NoMatch
                      then (Next, s2\<lparr> finalEvent := Some (FinalError ''no-speech'') \<rparr>)
                      else onRecognized toResultList cfg r (backfill s2))
                 | Recognizing r \<Rightarrow> (Next, onRecognizing toResultList cfg r (backfill s2))
                 | _ \<Rightarrow> (Next, s2)))"

text \<open>
  How far the session got: \<open>Exited\<close> when the loop was left (its condition became false,
  or a \<^verbatim>\<open>break\<close>), \<open>Waiting\<close> when the queue has no event for the pending
  \<^verbatim>\<open>await queue.shift()\<close>, \<open>Rejected\<close> when a failure left \<^verbatim>\<open>_startOnce\<close>.
\<close>

datatype outcome = Exited state | Waiting state | Rejected failure state

text \<open>
  \<^verbatim>\<open>for (let loop = 0; !stopping || audioStarted; loop++)\<close> over the events the queue
  delivers, in order.
\<close>

fun run_loop :: "normalizer \<Rightarrow> config \<Rightarrow> environment \<Rightarrow> state \<Rightarrow> session_event list \<Rightarrow> outcome" where
  "run_loop toResultList cfg env s [] =
     (if \<not> stopping s \<or> audioStarted s then Waiting s else Exited s)"
| "run_loop toResultList cfg env s (event # queue) =
     (if \<not> stopping s \<or> audioStarted s
      then (case body toResultList cfg env event s of
              (Next, s') \<Rightarrow> run_loop toResultList cfg env (s'\<lparr> loop := loop s' + 1 \<rparr>) queue
            | (Break, s') \<Rightarrow> Exited s'
            | (Throw f, s') \<Rightarrow> Rejected f s')
      else Exited s)"

text \<open>What follows the loop, up to the dispatch of \<^verbatim>\<open>end\<close>.\<close>

definition finish :: "state \<Rightarrow> state" where
  "finish s0 =
     (let s1 = s0\<lparr> onAudibleChunk := False \<rparr>;
          s2 = (if speechStarted s1 then dispatchEvent SpeechEnd s1 else s1);
          s3 = (if soundStarted s2 then dispatchEvent SoundEnd s2 else s2);
          s4 = (if audioStarted s3 then dispatchEvent AudioEnd s3 else s3);
          s5 = (case finalEvent s4 of
                  None \<Rightarrow> s4
                | Some fe \<Rightarrow>
                    (let fe' = (case fe of
                                  FinalResult rs \<Rightarrow>
                                    if rs = [] then FinalError ''no-speech'' else fe
                                | FinalError c \<Rightarrow> fe);
                         s' = s4\<lparr> finalEvent := Some fe' \<rparr>
                     in case fe' of
                          FinalError c \<Rightarrow> dispatchEvent (Error (Code c)) s'
                        | FinalResult rs \<Rightarrow> dispatchEvent (Result rs) s'))
      in dispatchEvent End s5)"

text \<open>
  The session when \<^verbatim>\<open>_startOnce\<close> is entered: the closure's variables are what the
  factory or an earlier session left, everything else is undefined or empty.
\<close>

definition entered :: "closure \<Rightarrow> state" where
  "entered c =
     \<lparr> muted = muted c, onAudibleChunk = onAudibleChunk c, soundStarted = False,
       speechStarted = False, stopping = False, audioStarted = False, finalEvent = None,
       finalizedResults = [], loop = 0, dispatched = [], calls = [] \<rparr>"

text \<open>Once the recognizer is created: \<^verbatim>\<open>muted = false\<close>, the audible-chunk callback armed.\<close>

definition initial :: "closure \<Rightarrow> state" where
  "initial c = (entered c)\<lparr> muted := False, onAudibleChunk := True \<rparr>"

text \<open>
  \<^verbatim>\<open>_startOnce\<close>: the awaited creation of the recognizer, the awaited
  \<^verbatim>\<open>startContinuousRecognitionAsync\<close>, the loop, and what follows it.
\<close>

definition startOnce ::
  "normalizer \<Rightarrow> config \<Rightarrow> environment \<Rightarrow> closure \<Rightarrow> session_event list \<Rightarrow> outcome" where
  "startOnce toResultList cfg env c queue =
     (case createRecognizer env of
        Some f \<Rightarrow> Rejected f (entered c)
      | None \<Rightarrow>
          (case startContinuousRecognitionAsync env of
             Some f \<Rightarrow> Rejected f (initial c)
           | None \<Rightarrow>
               (case run_loop toResultList cfg env (initial c) queue of
                  Exited s \<Rightarrow> Exited (finish s)
                | Waiting s \<Rightarrow> Waiting s
                | Rejected f s \<Rightarrow> Rejected f s)))"

text \<open>
  \<^verbatim>\<open>start\<close>: \<^verbatim>\<open>this._startOnce().catch(err => this.dispatchEvent(new ErrorEvent('error',
  { error: err, ... })))\<close>. It returns nothing; the model gives the state it leaves.
\<close>

definition start ::
  "normalizer \<Rightarrow> config \<Rightarrow> environment \<Rightarrow> closure \<Rightarrow> session_event list \<Rightarrow> state" where
  "start toResultList cfg env c queue =
     (case startOnce toResultList cfg env c queue of
        Exited s \<Rightarrow> s
      | Waiting s \<Rightarrow> s
      | Rejected err s \<Rightarrow> dispatchEvent (Error (Caught err)) s)"

section \<open>The audio chunk monitor\<close>

text \<open>
  A chunk of the audio source. \<^verbatim>\<open>buffer\<close> is an \<^verbatim>\<open>ArrayBuffer\<close>, a sequence of bytes, or
  null (\<open>None\<close>).
\<close>

record chunk =
  buffer :: "8 word list option"
  isEnd :: bool
  timeReceived :: nat

text \<open>Pairs of bytes as 16-bit samples, low byte first.\<close>

fun samples :: "8 word list \<Rightarrow> 16 word list" where
  "samples (lo # hi # bytes) = word_cat hi lo # samples bytes"
| "samples bytes = []"

text \<open>
  \<^verbatim>\<open>new Int16Array(arrayBuffer)\<close>: a RangeError when the byte length is odd, the empty
  array for null.
\<close>

definition Int16Array :: "8 word list option \<Rightarrow> failure + 16 word list" where
  "Int16Array arrayBuffer =
     (case arrayBuffer of
        None \<Rightarrow> Inr []
      | Some bytes \<Rightarrow> if odd (length bytes) then Inl RangeError else Inr (samples bytes))"

text \<open>
  \<^verbatim>\<open>averageAmplitude\<close>: the sum of the absolute values of the samples over their number.
  With no sample the quotient is \<^verbatim>\<open>0 / 0\<close>, NaN: \<open>None\<close>. The sum is an integer far below
  \<open>2 ^ 53\<close>, so the source's floating-point sum is exact, and the rounded quotient
  exceeds 150 exactly when the quotient of the reals does.
\<close>

definition averageAmplitude :: "8 word list option \<Rightarrow> failure + real option" where
  "averageAmplitude arrayBuffer =
     (case Int16Array arrayBuffer of
        Inl f \<Rightarrow> Inl f
      | Inr array \<Rightarrow>
          Inr (if array = [] then None
               else Some (real_of_int (foldl (\<lambda>averageAmplitude amplitude.
                                         averageAmplitude + \<bar>sint amplitude\<bar>) 0 array)
                          / real (length array))))"

text \<open>\<^verbatim>\<open>x > 150\<close> for a number that may be NaN.\<close>

definition exceeds :: "real option \<Rightarrow> real \<Rightarrow> bool" where
  "exceeds x y = (case x of None \<Rightarrow> False | Some v \<Rightarrow> v > y)"

text \<open>
  \<^verbatim>\<open>improviseAsync(fn, improviser)\<close>: \<^verbatim>\<open>fn\<close>, and on success the improviser on its result.
\<close>

definition improviseAsync ::
  "('x \<Rightarrow> failure + 'r) \<Rightarrow> ('r \<Rightarrow> failure + 'q) \<Rightarrow> 'x \<Rightarrow> failure + 'q" where
  "improviseAsync fn improviser args =
     (case fn args of Inl f \<Rightarrow> Inl f | Inr result \<Rightarrow> improviser result)"

text \<open>
  The improviser of \<^verbatim>\<open>read\<close>, at time \<open>now\<close>: the chunk the caller gets, the closure's
  variables afterwards, and the events pushed on the session's queue.
\<close>

definition improviser ::
  "nat \<Rightarrow> closure \<Rightarrow> chunk \<Rightarrow> failure + chunk \<times> closure \<times> session_event list" where
  "improviser now c chunk =
     (case averageAmplitude (buffer chunk) of
        Inl f \<Rightarrow> Inl f
      | Inr amplitude \<Rightarrow>
          (let (c1, pushed) =
                 (if exceeds amplitude 150 \<and> onAudibleChunk c
                  then (c\<lparr> onAudibleChunk := False \<rparr>, [FirstAudibleChunk])
                  else (c, []))
           in Inr (if muted c1
                   then \<lparr> buffer = Some [], isEnd = True, timeReceived = now \<rparr>
                   else chunk,
                   c1, pushed)))"

text \<open>
  The wrapped \<^verbatim>\<open>read\<close>, given what the reader's own \<^verbatim>\<open>read\<close> produces for this call: a
  failure or a chunk.
\<close>

definition read ::
  "failure + chunk \<Rightarrow> nat \<Rightarrow> closure \<Rightarrow> failure + chunk \<times> closure \<times> session_event list" where
  "read reader_read now c = improviseAsync (\<lambda>args. reader_read) (improviser now c) ()"

section \<open>The factory\<close>

text \<open>A credential option: undefined, a string, or an object (a function, a promise).\<close>

datatype credential = Undefined | Str string | Obj

definition truthy :: "credential \<Rightarrow> bool" where
  "truthy v = (case v of Undefined \<Rightarrow> False | Str s \<Rightarrow> s \<noteq> [] | Obj \<Rightarrow> True)"

record options =
  authorizationToken :: credential
  subscriptionKey :: credential
  enableTelemetry :: "bool option"
  looseEvent :: "bool option"
  looseEvents_option :: "bool option"

text \<open>
  The global environment the factory reads: \<^verbatim>\<open>window\<close> is absent (\<open>None\<close>: no such
  global, as outside a browser) or has a \<^verbatim>\<open>navigator\<close>, whose \<^verbatim>\<open>mediaDevices\<close> is absent
  or present, with or without \<^verbatim>\<open>getUserMedia\<close>.
\<close>

record media_devices =
  getUserMedia :: bool

record navigator =
  mediaDevices :: "media_devices option"

record global =
  window :: "navigator option"

text \<open>
  The three warnings of the factory: either \<^verbatim>\<open>authorizationToken\<close> or
  \<^verbatim>\<open>subscriptionKey\<close> must be specified; this browser does not support WebRTC; the
  option \<^verbatim>\<open>looseEvent\<close> should be named \<^verbatim>\<open>looseEvents\<close>.
\<close>

datatype warning = CredentialMissing | WebRTCUnsupported | LooseEventRenamed

text \<open>
  What a call of the factory that returns leaves: the warnings on the console, the keys
  of the object returned, whether \<^verbatim>\<open>audioConfig.attach\<close> was replaced, the argument of
  \<^verbatim>\<open>SpeechRecognizer.enableTelemetry\<close> if called, and \<^verbatim>\<open>looseEvents\<close> as sessions see it.
\<close>

record ponyfill =
  console_warn :: "warning list"
  returned_keys :: "string list"
  attach_improvised :: bool
  telemetry :: "bool option"
  loose :: bool

text \<open>
  The factory. Its second guard reads \<^verbatim>\<open>window.navigator.mediaDevices\<close>: where there is
  no global \<^verbatim>\<open>window\<close> the reference throws a ReferenceError. The default argument
  \<^verbatim>\<open>AudioConfig.fromDefaultMicrophoneInput()\<close> belongs to the Speech SDK and is taken to
  return.
\<close>

definition createSpeechRecognitionPonyfill :: "options \<Rightarrow> global \<Rightarrow> failure + ponyfill" where
  "createSpeechRecognitionPonyfill opts g =
     (if \<not> truthy (authorizationToken opts) \<and> \<not> truthy (subscriptionKey opts)
      then Inr \<lparr> console_warn = [CredentialMissing],
                 returned_keys = [], attach_improvised = False, telemetry = None, loose = False \<rparr>
      else
        (case window g of
           None \<Rightarrow> Inl ReferenceError
         | Some nav \<Rightarrow>
             if (case mediaDevices nav of None \<Rightarrow> True | Some m \<Rightarrow> \<not> getUserMedia m)
             then Inr \<lparr> console_warn = [WebRTCUnsupported],
                        returned_keys = [], attach_improvised = False, telemetry = None,
                        loose = False \<rparr>
             else
               Inr \<lparr> console_warn =
                       (if looseEvent opts \<noteq> None then [LooseEventRenamed] else []),
                     returned_keys =
                       [''SpeechGrammarList'', ''SpeechRecognition'', ''SpeechRecognitionEvent''],
                     attach_improvised = True,
                     telemetry = Some (enableTelemetry opts \<noteq> Some False),
                     loose = (case looseEvent opts of
                                Some v \<Rightarrow> v
                              | None \<Rightarrow> (case looseEvents_option opts of
                                           Some v \<Rightarrow> v | None \<Rightarrow> False)) \<rparr>))"

section \<open>Vocabulary of the properties\<close>

text \<open>The state an outcome carries, and whether the loop was left.\<close>

definition session :: "outcome \<Rightarrow> state" where
  "session out = (case out of Exited s \<Rightarrow> s | Waiting s \<Rightarrow> s | Rejected f s \<Rightarrow> s)"

definition exited :: "outcome \<Rightarrow> bool" where
  "exited out = (case out of Exited s \<Rightarrow> True | Waiting s \<Rightarrow> False | Rejected f s \<Rightarrow> False)"

text \<open>
  The lifecycle events of a dispatched sequence: all but the \<^verbatim>\<open>cognitiveservices\<close>
  events, which pass every queued event through for debugging.
\<close>

definition lifecycle :: "public_event list \<Rightarrow> public_event list" where
  "lifecycle evs = filter (\<lambda>e. case e of CognitiveServices x \<Rightarrow> False | _ \<Rightarrow> True) evs"

text \<open>
  \<^verbatim>\<open>recognizable\<close> of the source: the first alternative of the normalized result has a
  transcript that is not empty.
\<close>

definition recognizable :: "normalizer \<Rightarrow> config \<Rightarrow> sdk_result \<Rightarrow> bool" where
  "recognizable toResultList cfg r =
     (case alternatives (toResultList r
                           (maxAlternatives cfg) (textNormalization cfg)) of
        [] \<Rightarrow> False
      | alt0 # _ \<Rightarrow> transcript alt0 \<noteq> [])"

text \<open>A \<^verbatim>\<open>canceled\<close> event whose error text matches \<^verbatim>\<open>/Permission\sdenied/u\<close>.\<close>

definition permission_denied :: "session_event \<Rightarrow> bool" where
  "permission_denied e =
     (case e of Canceled (Some m) \<Rightarrow> regex_test PermissionDenied m | _ \<Rightarrow> False)"

text \<open>
  The configuration of a \<^verbatim>\<open>SpeechRecognition\<close> object as its constructor and the
  factory's default options leave it.
\<close>

definition defaults :: config where
  "defaults =
     \<lparr> continuous = False, interimResults = False, maxAlternatives = 1, looseEvents = False,
       textNormalization = DisplayText \<rparr>"

text \<open>An environment in which every awaited call resolves.\<close>

definition resolving :: environment where
  "resolving =
     \<lparr> createRecognizer = None, startContinuousRecognitionAsync = None,
       stopContinuousRecognitionAsync = [] \<rparr>"

text \<open>The closure's variables when the factory returns: both undefined.\<close>

definition fresh :: closure where
  "fresh = \<lparr> muted = False, onAudibleChunk = False \<rparr>"

text \<open>The error values of the \<^verbatim>\<open>error\<close> events of a dispatched sequence, in order.\<close>

fun errors :: "public_event list \<Rightarrow> error_value list" where
  "errors [] = []"
| "errors (Error v # evs) = v # errors evs"
| "errors (e # evs) = errors evs"

text \<open>
  Two invariants of the loop. While it runs, each of the three flags tells whether its
  start event has been dispatched, and no end event has been. Once it is left, each
  start event dispatched has its flag set or its end event dispatched, never both.
\<close>

definition paired_running :: "state \<Rightarrow> bool" where
  "paired_running s \<longleftrightarrow>
     audioStarted s = (AudioStart \<in> set (dispatched s)) \<and>
     soundStarted s = (SoundStart \<in> set (dispatched s)) \<and>
     speechStarted s = (SpeechStart \<in> set (dispatched s)) \<and>
     AudioEnd \<notin> set (dispatched s) \<and> SoundEnd \<notin> set (dispatched s) \<and>
     SpeechEnd \<notin> set (dispatched s) \<and> count_list (dispatched s) SpeechStart \<le> 1"

definition paired_left :: "state \<Rightarrow> bool" where
  "paired_left s \<longleftrightarrow>
     count_list (dispatched s) AudioEnd \<le> 1 \<and> count_list (dispatched s) SoundEnd \<le> 1 \<and>
     count_list (dispatched s) SpeechEnd \<le> 1 \<and> count_list (dispatched s) SpeechStart \<le> 1 \<and>
     (AudioStart \<in> set (dispatched s)) = (audioStarted s \<or> AudioEnd \<in> set (dispatched s)) \<and>
     (SoundStart \<in> set (dispatched s)) = (soundStarted s \<or> SoundEnd \<in> set (dispatched s)) \<and>
     (SpeechStart \<in> set (dispatched s)) = (speechStarted s \<or> SpeechEnd \<in> set (dispatched s)) \<and>
     \<not> (audioStarted s \<and> AudioEnd \<in> set (dispatched s)) \<and>
     \<not> (soundStarted s \<and> SoundEnd \<in> set (dispatched s)) \<and>
     \<not> (speechStarted s \<and> SpeechEnd \<in> set (dispatched s))"

text \<open>
  Vendor results for the examples: a finalized result and an interim result with one
  n-best entry, every rendering of which is the given text.
\<close>

definition heard :: "string \<Rightarrow> sdk_result" where
  "heard t =
     \<lparr> reason = RecognizedSpeech,
       NBest = [\<lparr> Confidence = 1, Lexical = t, ITN = t, MaskedITN = t, Display = t \<rparr>] \<rparr>"

definition hearing :: "string \<Rightarrow> sdk_result" where
  "hearing t =
     \<lparr> reason = RecognizingSpeech,
       NBest = [\<lparr> Confidence = 1, Lexical = t, ITN = t, MaskedITN = t, Display = t \<rparr>] \<rparr>"


text \<open>
  The \<^verbatim>\<open>result\<close> events of a sequence are interim results only: whenever the sequence
  holds one, \<^verbatim>\<open>interimResults\<close> is set, and its payload is the single result of a
  \<^verbatim>\<open>recognizing\<close> event of the given queue.
\<close>

definition interim_only ::
  "normalizer \<Rightarrow> config \<Rightarrow> session_event list \<Rightarrow> public_event list \<Rightarrow> bool" where
  "interim_only toResultList cfg queue evs \<longleftrightarrow>
     (\<forall>rs. Result rs \<in> set evs \<longrightarrow>
        interimResults cfg \<and>
        (\<exists>r. Recognizing r \<in> set queue \<and>
             rs = [toResultList r (maxAlternatives cfg) (textNormalization cfg)]))"

text \<open>
  Nothing is finalized and the terminal event staged is \<^verbatim>\<open>no-speech\<close>, or a result
  without results, which the exit turns into \<^verbatim>\<open>no-speech\<close>.
\<close>

definition no_speech_staged :: "state \<Rightarrow> bool" where
  "no_speech_staged s \<longleftrightarrow>
     finalizedResults s = [] \<and>
     (finalEvent s = Some (FinalError ''no-speech'') \<or> finalEvent s = Some (FinalResult []))"

section \<open>How each operation changes the state\<close>


lemma dispatchEvent_simps [simp]:
  "dispatched (dispatchEvent e s) = dispatched s @ [e]"
  "loop (dispatchEvent e s) = loop s"
  "audioStarted (dispatchEvent e s) = audioStarted s"
  "soundStarted (dispatchEvent e s) = soundStarted s"
  "speechStarted (dispatchEvent e s) = speechStarted s"
  "stopping (dispatchEvent e s) = stopping s"
  "finalEvent (dispatchEvent e s) = finalEvent s"
  "finalizedResults (dispatchEvent e s) = finalizedResults s"
  "calls (dispatchEvent e s) = calls s"
  "muted (dispatchEvent e s) = muted s"
  "onAudibleChunk (dispatchEvent e s) = onAudibleChunk s"
  by (simp_all add: dispatchEvent_def)

lemma call_simps [simp]:
  "dispatched (call c s) = dispatched s"
  "loop (call c s) = loop s"
  "audioStarted (call c s) = audioStarted s"
  "soundStarted (call c s) = soundStarted s"
  "speechStarted (call c s) = speechStarted s"
  "stopping (call c s) = stopping s"
  "finalEvent (call c s) = finalEvent s"
  "finalizedResults (call c s) = finalizedResults s"
  "calls (call c s) = calls s @ [c]"
  "muted (call c s) = muted s"
  "onAudibleChunk (call c s) = onAudibleChunk s"
  by (simp_all add: call_def)

lemma firstIteration_simps [simp]:
  "dispatched (firstIteration s) = dispatched s @ (if loop s = 0 then [Start] else [])"
  "loop (firstIteration s) = loop s"
  "audioStarted (firstIteration s) = audioStarted s"
  "soundStarted (firstIteration s) = soundStarted s"
  "speechStarted (firstIteration s) = speechStarted s"
  "stopping (firstIteration s) = stopping s"
  "finalEvent (firstIteration s) = finalEvent s"
  "finalizedResults (firstIteration s) = finalizedResults s"
  "calls (firstIteration s) = calls s"
  "muted (firstIteration s) = muted s"
  "onAudibleChunk (firstIteration s) = onAudibleChunk s"
  by (simp_all add: firstIteration_def)

lemma emitCognitiveServices_simps [simp]:
  "dispatched (emitCognitiveServices e s) = dispatched s @ [CognitiveServices e]"
  "loop (emitCognitiveServices e s) = loop s"
  "audioStarted (emitCognitiveServices e s) = audioStarted s"
  "soundStarted (emitCognitiveServices e s) = soundStarted s"
  "speechStarted (emitCognitiveServices e s) = speechStarted s"
  "stopping (emitCognitiveServices e s) = stopping s"
  "finalEvent (emitCognitiveServices e s) = finalEvent s"
  "finalizedResults (emitCognitiveServices e s) = finalizedResults s"
  "calls (emitCognitiveServices e s) = calls s"
  "muted (emitCognitiveServices e s) = muted s"
  "onAudibleChunk (emitCognitiveServices e s) = onAudibleChunk s"
  by (simp_all add: emitCognitiveServices_def)

lemma backfill_simps [simp]:
  "dispatched (backfill s) = dispatched s @ (if audioStarted s then [] else [AudioStart])
      @ (if soundStarted s then [] else [SoundStart]) @ (if speechStarted s then [] else [SpeechStart])"
  "loop (backfill s) = loop s"
  "audioStarted (backfill s) = True"
  "soundStarted (backfill s) = True"
  "speechStarted (backfill s) = True"
  "stopping (backfill s) = stopping s"
  "finalEvent (backfill s) = finalEvent s"
  "finalizedResults (backfill s) = finalizedResults s"
  "calls (backfill s) = calls s"
  "muted (backfill s) = muted s"
  "onAudibleChunk (backfill s) = onAudibleChunk s"
  by (simp_all add: backfill_def Let_def)

lemma onRecognizing_simps [simp]:
  "dispatched (onRecognizing toResultList cfg r s) = dispatched s @
     (if interimResults cfg then [Result (finalizedResults s @
        [toResultList r (maxAlternatives cfg) (textNormalization cfg)])] else [])"
  "loop (onRecognizing toResultList cfg r s) = loop s"
  "audioStarted (onRecognizing toResultList cfg r s) = audioStarted s"
  "soundStarted (onRecognizing toResultList cfg r s) = soundStarted s"
  "speechStarted (onRecognizing toResultList cfg r s) = speechStarted s"
  "stopping (onRecognizing toResultList cfg r s) = stopping s"
  "finalEvent (onRecognizing toResultList cfg r s) = finalEvent s"
  "finalizedResults (onRecognizing toResultList cfg r s) = finalizedResults s"
  "calls (onRecognizing toResultList cfg r s) = calls s"
  "muted (onRecognizing toResultList cfg r s) = muted s"
  "onAudibleChunk (onRecognizing toResultList cfg r s) = onAudibleChunk s"
  by (simp_all add: onRecognizing_def)



lemma onRecognized_TypeError:
  "alternatives (toResultList r
      (maxAlternatives cfg) (textNormalization cfg)) = [] \<Longrightarrow>
   onRecognized toResultList cfg r s = (Throw TypeError, s)"
  by (simp add: onRecognized_def)

lemma onRecognized_Next:
  assumes "alternatives (toResultList r
      (maxAlternatives cfg) (textNormalization cfg)) \<noteq> []"
  shows "fst (onRecognized toResultList cfg r s) = Next"
    and "dispatched (snd (onRecognized toResultList cfg r s)) = dispatched s @
       (if recognizable toResultList cfg r \<and> (continuous cfg \<or> looseEvents cfg)
        then [Result (finalizedResults s @
               [toResultList r
                  (maxAlternatives cfg) (textNormalization cfg)])]
        else [])"
    and "finalizedResults (snd (onRecognized toResultList cfg r s)) = finalizedResults s @
       (if recognizable toResultList cfg r
        then [toResultList r
                (maxAlternatives cfg) (textNormalization cfg)]
        else [])"
    and "finalEvent (snd (onRecognized toResultList cfg r s)) =
       (if recognizable toResultList cfg r \<and> (continuous cfg \<or> looseEvents cfg) then None
        else Some (FinalResult (finalizedResults (snd (onRecognized toResultList cfg r s)))))"
    and "calls (snd (onRecognized toResultList cfg r s)) = calls s @
       (if continuous cfg then [] else [StopContinuousRecognitionAsync False])"
    and "loop (snd (onRecognized toResultList cfg r s)) = loop s"
    and "audioStarted (snd (onRecognized toResultList cfg r s)) = audioStarted s"
    and "soundStarted (snd (onRecognized toResultList cfg r s)) = soundStarted s"
    and "speechStarted (snd (onRecognized toResultList cfg r s)) = speechStarted s"
    and "stopping (snd (onRecognized toResultList cfg r s)) = stopping s"
    and "muted (snd (onRecognized toResultList cfg r s)) = muted s"
    and "onAudibleChunk (snd (onRecognized toResultList cfg r s)) = onAudibleChunk s"
  using assms
  by (simp_all add: onRecognized_def recognizable_def Let_def split: list.splits)

lemma PermissionDenied_Nil [simp]: "\<not> match_here PermissionDenied []"
  by (simp add: PermissionDenied_def literal_def)

lemma body_Canceled:
  "body toResultList cfg env (Canceled d) s =
     (let s1 = emitCognitiveServices (Canceled d) s;
          m = (case d of None \<Rightarrow> [] | Some m \<Rightarrow> m)
      in if regex_test PermissionDenied m
         then (Break, s1\<lparr> finalEvent := Some (FinalError ''not-allowed'') \<rparr>)
         else if m \<noteq> []
         then (if regex_test re1006 m
               then (Break,
                     (if \<not> audioStarted s
                      then dispatchEvent AudioEnd (dispatchEvent AudioStart (firstIteration s1))
                      else firstIteration s1)\<lparr> finalEvent := Some (FinalError ''network'') \<rparr>)
               else (Break, (firstIteration s1)\<lparr> finalEvent := Some (FinalError ''unknown'') \<rparr>))
         else (Next, firstIteration s1))"
  by (cases d) (simp_all add: body_def Let_def)


lemma body_Abort:
  "body toResultList cfg env Abort s =
     (let s4 = call (StopContinuousRecognitionAsync True)
                 ((firstIteration (emitCognitiveServices Abort s))
                    \<lparr> finalEvent := Some (FinalError ''aborted''), stopping := True \<rparr>)
      in case map_of (stopContinuousRecognitionAsync env) (loop s) of
           Some f \<Rightarrow> (Throw f, s4)
         | None \<Rightarrow> (Next, s4))"
  by (simp add: body_def Let_def)

lemma body_Stop:
  "body toResultList cfg env Stop s =
     (Next, (firstIteration (emitCognitiveServices Stop s))\<lparr> muted := True, stopping := True \<rparr>)"
  by (simp add: body_def Let_def)

lemma body_AudioSourceReady:
  "body toResultList cfg env AudioSourceReady s =
     (Next, (dispatchEvent AudioStart (firstIteration (emitCognitiveServices AudioSourceReady s)))
              \<lparr> audioStarted := True \<rparr>)"
  by (simp add: body_def Let_def)

lemma body_FirstAudibleChunk:
  "body toResultList cfg env FirstAudibleChunk s =
     (Next, (dispatchEvent SoundStart (firstIteration (emitCognitiveServices FirstAudibleChunk s)))
              \<lparr> soundStarted := True \<rparr>)"
  by (simp add: body_def Let_def)

lemma body_AudioSourceOff:
  "body toResultList cfg env AudioSourceOff s =
     (let s3 = (firstIteration (emitCognitiveServices AudioSourceOff s))\<lparr> stopping := True \<rparr>;
          s4 = (if speechStarted s3 then dispatchEvent SpeechEnd s3 else s3);
          s5 = (if soundStarted s4 then dispatchEvent SoundEnd s4 else s4);
          s6 = (if audioStarted s5 then dispatchEvent AudioEnd s5 else s5)
      in (Break, s6\<lparr> audioStarted := False, soundStarted := False, speechStarted := False \<rparr>))"
  by (simp add: body_def Let_def)

lemma body_Recognized:
  "body toResultList cfg env (Recognized r) s =
     (if reason r = NoMatch
      then (Next, (firstIteration (emitCognitiveServices (Recognized r) s))
                    \<lparr> finalEvent := Some (FinalError ''no-speech'') \<rparr>)
      else onRecognized toResultList cfg r (backfill (firstIteration (emitCognitiveServices (Recognized r) s))))"
  by (simp add: body_def Let_def)

lemma body_Recognizing:
  "body toResultList cfg env (Recognizing r) s =
     (Next, onRecognizing toResultList cfg r (backfill (firstIteration (emitCognitiveServices (Recognizing r) s))))"
  by (simp add: body_def Let_def)

lemma body_other:
  "e = SessionStarted \<or> e = SessionStopped \<or> e = SpeechStartDetected \<or> e = SpeechEndDetected \<Longrightarrow>
   body toResultList cfg env e s = (Next, firstIteration (emitCognitiveServices e s))"
  by (auto simp add: body_def Let_def)

lemmas body_event = body_Canceled body_Abort body_Stop body_AudioSourceReady body_FirstAudibleChunk
  body_AudioSourceOff body_Recognized body_Recognizing body_other



lemma onRecognized_shape:
  "\<exists>ys. dispatched (snd (onRecognized toResultList cfg r s)) = dispatched s @ ys \<and>
        (\<forall>y \<in> set ys. \<exists>rs. y = Result rs) \<and> loop (snd (onRecognized toResultList cfg r s)) = loop s"
proof (cases "alternatives (toResultList r
      (maxAlternatives cfg) (textNormalization cfg)) = []")
  case True
  then show ?thesis by (simp add: onRecognized_TypeError)
next
  case False
  then show ?thesis by (simp add: onRecognized_Next)
qed

lemma body_shape:
  assumes "body toResultList cfg env e s = (ctl, s')"
  shows "\<exists>ys. dispatched s' = dispatched s @ CognitiveServices e #
            (if loop s = 0 \<and> \<not> permission_denied e then [Start] else []) @ ys \<and>
          (\<forall>y \<in> set ys. y \<in> {AudioStart, AudioEnd, SoundStart, SoundEnd, SpeechStart, SpeechEnd} \<or>
              (\<exists>rs. y = Result rs)) \<and>
          loop s' = loop s"
proof (cases e)
  case (Canceled d)
  then show ?thesis using assms
    by (cases d) (auto simp: body_Canceled permission_denied_def Let_def split: if_splits)
next
  case (Recognized r)
  obtain ys where ys: "dispatched (snd (onRecognized toResultList cfg r (backfill (firstIteration (emitCognitiveServices e s))))) =
      dispatched (backfill (firstIteration (emitCognitiveServices e s))) @ ys"
      "\<forall>y \<in> set ys. \<exists>rs. y = Result rs"
      "loop (snd (onRecognized toResultList cfg r (backfill (firstIteration (emitCognitiveServices e s))))) = loop s"
    using onRecognized_shape[of toResultList cfg r "backfill (firstIteration (emitCognitiveServices e s))"] by auto
  show ?thesis
  proof (cases "reason r = NoMatch")
    case True
    then show ?thesis using assms Recognized
      by (auto simp: body_Recognized permission_denied_def)
  next
    case False
    then have "s' = snd (onRecognized toResultList cfg r (backfill (firstIteration (emitCognitiveServices e s))))"
      using assms Recognized by (simp add: body_Recognized)
    then show ?thesis using ys Recognized
      by (auto simp: permission_denied_def)
  qed
next
  case (Recognizing r)
  then show ?thesis using assms
    by (auto simp: body_Recognizing permission_denied_def)
next
  case Abort
  then show ?thesis using assms
    by (auto simp: body_Abort permission_denied_def Let_def split: option.splits)
next
  case AudioSourceOff
  then show ?thesis using assms
    by (auto simp: body_AudioSourceOff permission_denied_def Let_def)
qed (insert assms, auto simp: body_event permission_denied_def)


lemma run_loop_rule:
  assumes init: "I s"
    and step: "\<And>e s ctl s'. I s \<Longrightarrow> \<not> stopping s \<or> audioStarted s \<Longrightarrow> body toResultList cfg env e s = (ctl, s') \<Longrightarrow>
        (case ctl of Next \<Rightarrow> I (s'\<lparr> loop := loop s' + 1 \<rparr>) | Break \<Rightarrow> B s' | Throw f \<Rightarrow> T s')"
    and leave: "\<And>s. I s \<Longrightarrow> \<not> (\<not> stopping s \<or> audioStarted s) \<Longrightarrow> B s"
  shows "case run_loop toResultList cfg env s queue of Exited s' \<Rightarrow> B s' | Waiting s' \<Rightarrow> I s' | Rejected f s' \<Rightarrow> T s'"
  using init
proof (induction queue arbitrary: s)
  case Nil
  then show ?case using leave by auto
next
  case (Cons e queue)
  show ?case
  proof (cases "\<not> stopping s \<or> audioStarted s")
    case False
    then show ?thesis using leave[OF Cons.prems] by auto
  next
    case True
    obtain ctl s' where b: "body toResultList cfg env e s = (ctl, s')" by (cases "body toResultList cfg env e s")
    from step[OF Cons.prems True b] show ?thesis
      using True b Cons.IH by (cases ctl) auto
  qed
qed

lemma finish_dispatched:
  "dispatched (finish s) = dispatched s @
     (if speechStarted s then [SpeechEnd] else []) @
     (if soundStarted s then [SoundEnd] else []) @
     (if audioStarted s then [AudioEnd] else []) @
     (case finalEvent s of
        None \<Rightarrow> []
      | Some (FinalError c) \<Rightarrow> [Error (Code c)]
      | Some (FinalResult rs) \<Rightarrow> if rs = [] then [Error (Code ''no-speech'')] else [Result rs]) @
     [End]"
  by (simp add: finish_def Let_def split: option.splits final_event.splits)

lemma initial_simps [simp]:
  "dispatched (initial c) = []" "loop (initial c) = 0" "\<not> stopping (initial c)"
  "\<not> audioStarted (initial c)" "\<not> soundStarted (initial c)" "\<not> speechStarted (initial c)"
  "finalEvent (initial c) = None" "finalizedResults (initial c) = []" "calls (initial c) = []"
  "\<not> muted (initial c)" "onAudibleChunk (initial c)"
  "dispatched (entered c) = []"
  by (simp_all add: initial_def entered_def)

lemma loop_start_end:
  "case run_loop toResultList cfg env (initial c) queue of
     Exited s \<Rightarrow> End \<notin> set (dispatched s) \<and> count_list (dispatched s) Start \<le> 1
   | Waiting s \<Rightarrow> End \<notin> set (dispatched s) \<and> count_list (dispatched s) Start \<le> 1 \<and>
       (loop s = 0 \<longrightarrow> Start \<notin> set (dispatched s))
   | Rejected f s \<Rightarrow> End \<notin> set (dispatched s) \<and> count_list (dispatched s) Start \<le> 1"
proof (rule run_loop_rule)
  show "End \<notin> set (dispatched (initial c)) \<and> count_list (dispatched (initial c)) Start \<le> 1 \<and>
       (loop (initial c) = 0 \<longrightarrow> Start \<notin> set (dispatched (initial c)))"
    by simp
next
  fix e s ctl s'
  assume I: "End \<notin> set (dispatched s) \<and> count_list (dispatched s) Start \<le> 1 \<and>
       (loop s = 0 \<longrightarrow> Start \<notin> set (dispatched s))"
    and b: "body toResultList cfg env e s = (ctl, s')"
  from body_shape[OF b] obtain ys where ys:
    "dispatched s' = dispatched s @ CognitiveServices e #
            (if loop s = 0 \<and> \<not> permission_denied e then [Start] else []) @ ys"
    "\<forall>y \<in> set ys. y \<in> {AudioStart, AudioEnd, SoundStart, SoundEnd, SpeechStart, SpeechEnd} \<or>
              (\<exists>rs. y = Result rs)"
    "loop s' = loop s" by blast
  have no: "Start \<notin> set ys" "End \<notin> set ys" using ys(2) by auto
  have "End \<notin> set (dispatched s') \<and> count_list (dispatched s') Start \<le> 1"
    using I ys(1) no by (auto simp: count_list_0_iff)
  then show "case ctl of
       Next \<Rightarrow> End \<notin> set (dispatched (s'\<lparr>loop := loop s' + 1\<rparr>)) \<and>
         count_list (dispatched (s'\<lparr>loop := loop s' + 1\<rparr>)) Start \<le> 1 \<and>
         (loop (s'\<lparr>loop := loop s' + 1\<rparr>) = 0 \<longrightarrow> Start \<notin> set (dispatched (s'\<lparr>loop := loop s' + 1\<rparr>)))
     | Break \<Rightarrow> End \<notin> set (dispatched s') \<and> count_list (dispatched s') Start \<le> 1
     | Throw f \<Rightarrow> End \<notin> set (dispatched s') \<and> count_list (dispatched s') Start \<le> 1"
    by (cases ctl) auto
qed auto

lemma errors_append [simp]: "errors (xs @ ys) = errors xs @ errors ys"
  by (induction xs rule: errors.induct) simp_all

lemma errors_none:
  "\<forall>y \<in> set ys. y \<in> {AudioStart, AudioEnd, SoundStart, SoundEnd, SpeechStart, SpeechEnd} \<or>
              (\<exists>rs. y = Result rs) \<Longrightarrow> errors ys = []"
  by (induction ys) auto

lemma loop_no_error:
  "errors (dispatched (session (run_loop toResultList cfg env (initial c) queue))) = []"
proof -
  have "case run_loop toResultList cfg env (initial c) queue of
          Exited s \<Rightarrow> errors (dispatched s) = []
        | Waiting s \<Rightarrow> errors (dispatched s) = []
        | Rejected f s \<Rightarrow> errors (dispatched s) = []"
  proof (rule run_loop_rule)
    fix e s ctl s'
    assume I: "errors (dispatched s) = []" and b: "body toResultList cfg env e s = (ctl, s')"
    from body_shape[OF b] obtain ys where ys:
      "dispatched s' = dispatched s @ CognitiveServices e #
            (if loop s = 0 \<and> \<not> permission_denied e then [Start] else []) @ ys"
      "\<forall>y \<in> set ys. y \<in> {AudioStart, AudioEnd, SoundStart, SoundEnd, SpeechStart, SpeechEnd} \<or>
              (\<exists>rs. y = Result rs)" by blast
    have "errors (dispatched s') = []"
      using I ys(1) errors_none[OF ys(2)] by simp
    then show "case ctl of Next \<Rightarrow> errors (dispatched (s'\<lparr>loop := loop s' + 1\<rparr>)) = []
        | Break \<Rightarrow> errors (dispatched s') = [] | Throw f \<Rightarrow> errors (dispatched s') = []"
      by (cases ctl) auto
  qed simp_all
  then show ?thesis by (simp add: session_def split: outcome.splits)
qed

lemma paired_running_left: "paired_running s \<Longrightarrow> paired_left s"
  by (simp add: paired_running_def paired_left_def count_list_0_iff)

lemma paired_running_loop [simp]: "paired_running (s\<lparr> loop := n \<rparr>) = paired_running s"
  by (simp add: paired_running_def)

lemma body_paired_AudioSourceOff:
  assumes R: "paired_running s"
  shows "paired_left (snd (body toResultList cfg env AudioSourceOff s))"
  using R unfolding paired_running_def paired_left_def
  by (simp add: body_AudioSourceOff Let_def count_list_0_iff)


lemma body_paired_Canceled:
  assumes R: "paired_running s"
  shows "case fst (body toResultList cfg env (Canceled d) s) of
           Next \<Rightarrow> paired_running (snd (body toResultList cfg env (Canceled d) s))
         | Break \<Rightarrow> paired_left (snd (body toResultList cfg env (Canceled d) s))
         | Throw f \<Rightarrow> paired_running (snd (body toResultList cfg env (Canceled d) s))"
  using R unfolding paired_running_def paired_left_def
  by (simp add: body_Canceled Let_def count_list_0_iff)

lemma body_paired_Recognized:
  assumes R: "paired_running s"
  shows "case fst (body toResultList cfg env (Recognized r) s) of
           Next \<Rightarrow> paired_running (snd (body toResultList cfg env (Recognized r) s))
         | Break \<Rightarrow> paired_left (snd (body toResultList cfg env (Recognized r) s))
         | Throw f \<Rightarrow> paired_running (snd (body toResultList cfg env (Recognized r) s))"
proof -
  let ?s = "backfill (firstIteration (emitCognitiveServices (Recognized r) s))"
  have Rb: "paired_running ?s"
    using R unfolding paired_running_def by (simp add: count_list_0_iff)
  show ?thesis
  proof (cases "reason r = NoMatch")
    case True
    then show ?thesis using R unfolding paired_running_def
      by (simp add: body_Recognized)
  next
    case False
    show ?thesis
    proof (cases "alternatives (toResultList r (maxAlternatives cfg) (textNormalization cfg)) = []")
      case True
      then show ?thesis using Rb False
        by (simp add: body_Recognized onRecognized_TypeError)
    next
      case nonempty: False
      note facts = onRecognized_Next[where toResultList = toResultList and cfg = cfg and r = r,
          OF nonempty]
      have "paired_running (snd (onRecognized toResultList cfg r ?s))"
        using Rb unfolding paired_running_def
        by (simp add: facts)
      then show ?thesis using False facts(1)[of ?s]
        by (simp add: body_Recognized)
    qed
  qed
qed

lemma body_paired_rest:
  assumes R: "paired_running s"
    and e: "e \<noteq> AudioSourceOff" "\<forall>d. e \<noteq> Canceled d" "\<forall>r. e \<noteq> Recognized r"
  shows "case fst (body toResultList cfg env e s) of
           Next \<Rightarrow> paired_running (snd (body toResultList cfg env e s))
         | Break \<Rightarrow> paired_left (snd (body toResultList cfg env e s))
         | Throw f \<Rightarrow> paired_running (snd (body toResultList cfg env e s))"
proof (cases e)
  case (Recognizing r)
  then show ?thesis using R unfolding paired_running_def
    by (simp add: body_Recognizing count_list_0_iff)
next
  case Abort
  then show ?thesis using R unfolding paired_running_def
    by (simp add: body_Abort Let_def split: option.splits)
next
  case AudioSourceReady
  then show ?thesis using R unfolding paired_running_def
    by (simp add: body_AudioSourceReady)
next
  case FirstAudibleChunk
  then show ?thesis using R unfolding paired_running_def
    by (simp add: body_FirstAudibleChunk)
next
  case Stop
  then show ?thesis using R unfolding paired_running_def
    by (simp add: body_Stop)
next
  case SessionStarted
  then show ?thesis using R unfolding paired_running_def
    by (simp add: body_other)
next
  case SessionStopped
  then show ?thesis using R unfolding paired_running_def
    by (simp add: body_other)
next
  case SpeechStartDetected
  then show ?thesis using R unfolding paired_running_def
    by (simp add: body_other)
next
  case SpeechEndDetected
  then show ?thesis using R unfolding paired_running_def
    by (simp add: body_other)
qed (insert e, simp_all)

lemma body_paired:
  assumes R: "paired_running s" and b: "body toResultList cfg env e s = (ctl, s')"
  shows "case ctl of Next \<Rightarrow> paired_running s' | Break \<Rightarrow> paired_left s' | Throw f \<Rightarrow> paired_running s'"
proof -
  have fs: "fst (body toResultList cfg env e s) = ctl" "snd (body toResultList cfg env e s) = s'"
    using b by simp_all
  show ?thesis
  proof (cases e)
    case AudioSourceOff
    then show ?thesis using body_paired_AudioSourceOff[OF R, of toResultList cfg env] b
      by (simp add: body_AudioSourceOff Let_def)
  next
    case (Canceled d)
    then show ?thesis using body_paired_Canceled[OF R, of toResultList cfg env d] fs
      by (cases ctl) simp_all
  next
    case (Recognized r)
    then show ?thesis using body_paired_Recognized[OF R, of toResultList cfg env r] fs
      by (cases ctl) simp_all
  qed (insert body_paired_rest[OF R, of e toResultList cfg env] fs, (cases ctl; simp)+)
qed

lemma loop_paired:
  "case run_loop toResultList cfg env (initial c) queue of
     Exited s \<Rightarrow> paired_left s | Waiting s \<Rightarrow> paired_running s | Rejected f s \<Rightarrow> paired_running s"
proof (rule run_loop_rule)
  show "paired_running (initial c)" by (simp add: paired_running_def)
next
  fix e s ctl s'
  assume "paired_running s" "body toResultList cfg env e s = (ctl, s')"
  from body_paired[OF this]
  show "case ctl of Next \<Rightarrow> paired_running (s'\<lparr>loop := loop s' + 1\<rparr>)
     | Break \<Rightarrow> paired_left s' | Throw f \<Rightarrow> paired_running s'"
    by (cases ctl) auto
qed (rule paired_running_left)

lemma finish_paired:
  assumes "paired_left s"
  shows "count_list (dispatched (finish s)) AudioEnd \<le> 1 \<and>
         count_list (dispatched (finish s)) SoundEnd \<le> 1 \<and>
         count_list (dispatched (finish s)) SpeechEnd \<le> 1 \<and>
         count_list (dispatched (finish s)) SpeechStart \<le> 1 \<and>
         (AudioStart \<in> set (dispatched (finish s))) = (AudioEnd \<in> set (dispatched (finish s))) \<and>
         (SoundStart \<in> set (dispatched (finish s))) = (SoundEnd \<in> set (dispatched (finish s))) \<and>
         (SpeechStart \<in> set (dispatched (finish s))) = (SpeechEnd \<in> set (dispatched (finish s)))"
proof -
  define final where "final = (case finalEvent s of None \<Rightarrow> []
      | Some (FinalError c) \<Rightarrow> [Error (Code c)]
      | Some (FinalResult rs) \<Rightarrow> if rs = [] then [Error (Code ''no-speech'')] else [Result rs]) @ [End]"
  have tail: "AudioStart \<notin> set final" "AudioEnd \<notin> set final" "SoundStart \<notin> set final"
    "SoundEnd \<notin> set final" "SpeechStart \<notin> set final" "SpeechEnd \<notin> set final"
    by (auto simp: final_def split: option.splits final_event.splits)
  have d: "dispatched (finish s) = dispatched s @
     (if speechStarted s then [SpeechEnd] else []) @
     (if soundStarted s then [SoundEnd] else []) @
     (if audioStarted s then [AudioEnd] else []) @ final"
    by (simp add: finish_dispatched final_def)
  show ?thesis
    using assms tail unfolding paired_left_def d
    by (simp add: count_list_0_iff)
qed

lemma run_loop_Waiting_awaits:
  "run_loop toResultList cfg env s queue = Waiting s' \<Longrightarrow> \<not> stopping s' \<or> audioStarted s'"
  by (induction queue arbitrary: s)
     (auto split: if_splits prod.splits control.splits)

lemma run_loop_append:
  "run_loop toResultList cfg env s xs = Waiting s' \<Longrightarrow>
   run_loop toResultList cfg env s (xs @ ys) = run_loop toResultList cfg env s' ys"
proof (induction xs arbitrary: s)
  case Nil
  then show ?case by (cases ys) (auto split: if_splits)
next
  case (Cons x xs)
  then show ?case by (auto split: if_splits prod.splits control.splits)
qed

lemma run_loop_Cons_Waiting:
  assumes "run_loop toResultList cfg env s (x # xs) = Waiting s2"
  shows "\<exists>s'. body toResultList cfg env x s = (Next, s') \<and> (\<not> stopping s \<or> audioStarted s) \<and>
              run_loop toResultList cfg env (s'\<lparr> loop := loop s' + 1 \<rparr>) xs = Waiting s2"
  using assms by (auto split: if_splits prod.splits control.splits)

lemma body_finalizedResults:
  assumes "body toResultList cfg env e s = (ctl, s')"
  shows "length (finalizedResults s) \<le> length (finalizedResults s')"
proof (cases e)
  case (Canceled d)
  then show ?thesis using assms by (auto simp: body_Canceled Let_def split: if_splits)
next
  case (Recognized r)
  show ?thesis
  proof (cases "alternatives (toResultList r (maxAlternatives cfg) (textNormalization cfg)) = []")
    case True
    then show ?thesis using assms Recognized
      by (auto simp: body_Recognized onRecognized_TypeError split: if_splits)
  next
    case False
    note facts = onRecognized_Next[where toResultList = toResultList and cfg = cfg and r = r, OF False]
    have "length (finalizedResults s) \<le> length (finalizedResults (snd (onRecognized toResultList cfg r
        (backfill (firstIteration (emitCognitiveServices (Recognized r) s))))))"
      by (simp add: facts)
    then show ?thesis using assms Recognized
      by (auto simp: body_Recognized split: if_splits)
  qed
next
  case Abort
  then show ?thesis using assms by (auto simp: body_Abort Let_def split: option.splits)
next
  case AudioSourceOff
  then show ?thesis using assms by (auto simp: body_AudioSourceOff Let_def)
qed (insert assms, auto simp: body_event)

lemma run_loop_finalizedResults:
  "run_loop toResultList cfg env s queue = Waiting s' \<Longrightarrow>
   length (finalizedResults s) \<le> length (finalizedResults s')"
proof (induction queue arbitrary: s)
  case Nil
  then show ?case by (auto split: if_splits)
next
  case (Cons x xs)
  from run_loop_Cons_Waiting[OF Cons.prems] obtain s1 where
    b: "body toResultList cfg env x s = (Next, s1)"
    and r: "run_loop toResultList cfg env (s1\<lparr> loop := loop s1 + 1 \<rparr>) xs = Waiting s'" by blast
  from body_finalizedResults[OF b] Cons.IH[OF r] show ?case by simp
qed

text \<open>What the loop does with a recognizable recognized event.\<close>

lemma body_recognizable:
  assumes "reason r \<noteq> NoMatch" and "recognizable toResultList cfg r"
  shows "\<exists>s'. body toResultList cfg env (Recognized r) s = (Next, s') \<and>
     finalizedResults s' =
       finalizedResults s @ [toResultList r (maxAlternatives cfg) (textNormalization cfg)] \<and>
     dispatched s' = dispatched s @ CognitiveServices (Recognized r) #
       (if loop s = 0 then [Start] else []) @
       (if audioStarted s then [] else [AudioStart]) @
       (if soundStarted s then [] else [SoundStart]) @
       (if speechStarted s then [] else [SpeechStart]) @
       (if continuous cfg \<or> looseEvents cfg then [Result (finalizedResults s')] else []) \<and>
     finalEvent s' =
       (if continuous cfg \<or> looseEvents cfg then None else Some (FinalResult (finalizedResults s'))) \<and>
     calls s' = calls s @ (if continuous cfg then [] else [StopContinuousRecognitionAsync False]) \<and>
     audioStarted s' \<and> soundStarted s' \<and> speechStarted s' \<and> stopping s' = stopping s \<and>
     loop s' = loop s"
proof -
  have ne: "alternatives (toResultList r (maxAlternatives cfg) (textNormalization cfg)) \<noteq> []"
    using assms(2) by (auto simp: recognizable_def)
  note facts = onRecognized_Next[where toResultList = toResultList and cfg = cfg and r = r, OF ne]
  let ?s = "backfill (firstIteration (emitCognitiveServices (Recognized r) s))"
  have "body toResultList cfg env (Recognized r) s = (Next, snd (onRecognized toResultList cfg r ?s))"
    using assms(1) facts(1)[of ?s] by (simp add: body_Recognized prod_eq_iff)
  then show ?thesis using assms(2) by (simp add: facts)
qed


lemma body_Next_flags:
  assumes "body toResultList cfg env e s = (Next, s')"
  shows "(audioStarted s \<longrightarrow> audioStarted s') \<and> (soundStarted s \<longrightarrow> soundStarted s') \<and>
         (speechStarted s \<longrightarrow> speechStarted s') \<and> loop s' = loop s"
proof (cases e)
  case (Canceled d)
  then show ?thesis using assms by (auto simp: body_Canceled Let_def split: if_splits)
next
  case (Recognized r)
  show ?thesis
  proof (cases "alternatives (toResultList r (maxAlternatives cfg) (textNormalization cfg)) = []")
    case True
    then show ?thesis using assms Recognized
      by (auto simp: body_Recognized onRecognized_TypeError split: if_splits)
  next
    case False
    note facts = onRecognized_Next[where toResultList = toResultList and cfg = cfg and r = r, OF False]
    have "s' = snd (body toResultList cfg env e s)" using assms by simp
    then show ?thesis using Recognized
      by (cases "reason r = NoMatch") (simp_all add: body_Recognized facts)
  qed
next
  case Abort
  then show ?thesis using assms by (auto simp: body_Abort Let_def split: option.splits)
next
  case AudioSourceOff
  then show ?thesis using assms by (auto simp: body_AudioSourceOff Let_def)
qed (insert assms, auto simp: body_event)

lemma run_loop_flags:
  "run_loop toResultList cfg env s queue = Waiting s' \<Longrightarrow>
   audioStarted s \<Longrightarrow> soundStarted s \<Longrightarrow> speechStarted s \<Longrightarrow> 0 < loop s \<Longrightarrow>
   audioStarted s' \<and> soundStarted s' \<and> speechStarted s' \<and> 0 < loop s'"
proof (induction queue arbitrary: s)
  case Nil
  then show ?case by (auto split: if_splits)
next
  case (Cons x xs)
  from run_loop_Cons_Waiting[OF Cons.prems(1)] obtain s1 where
    b: "body toResultList cfg env x s = (Next, s1)"
    and r: "run_loop toResultList cfg env (s1\<lparr> loop := loop s1 + 1 \<rparr>) xs = Waiting s'" by blast
  from body_Next_flags[OF b] Cons.prems show ?case
    by (intro Cons.IH[OF r]) simp_all
qed

lemma no_speech_staged_loop [simp]: "no_speech_staged (s\<lparr> loop := n \<rparr>) = no_speech_staged s"
  by (simp add: no_speech_staged_def)



lemma interim_only_Nil [simp]: "interim_only toResultList cfg queue []"
  by (simp add: interim_only_def)


lemma interim_only_no_result:
  "\<forall>rs. Result rs \<notin> set evs \<Longrightarrow> interim_only toResultList cfg queue evs"
  by (simp add: interim_only_def)





lemma finish_errors:
  "\<forall>v \<in> set (errors (dispatched (finish s))). v \<in> set (errors (dispatched s)) \<or> (\<exists>c. v = Code c)"
  by (auto simp: finish_dispatched split: option.splits final_event.splits)

lemma factory_guards:
  assumes "(\<not> truthy (authorizationToken opts) \<and> \<not> truthy (subscriptionKey opts)) \<or>
           (\<exists>nav. window g = Some nav \<and>
                  (case mediaDevices nav of None \<Rightarrow> True | Some m \<Rightarrow> \<not> getUserMedia m))"
  shows "createSpeechRecognitionPonyfill opts g =
           Inr \<lparr> console_warn =
                   [if \<not> truthy (authorizationToken opts) \<and> \<not> truthy (subscriptionKey opts)
                    then CredentialMissing else WebRTCUnsupported],
                 returned_keys = [], attach_improvised = False, telemetry = None, loose = False \<rparr>"
  using assms by (auto simp: createSpeechRecognitionPonyfill_def)

lemmas run_simps = startOnce_def session_def exited_def initial_def entered_def body_def
  emitCognitiveServices_def firstIteration_def dispatchEvent_def backfill_def onRecognized_def
  onRecognizing_def call_def finish_def lifecycle_def Let_def
  cognitiveServiceEventResultToWebSpeechRecognitionResultList_def rendering_def
  PermissionDenied_def re1006_def literal_def whitespace_def
  defaults_def resolving_def fresh_def heard_def hearing_def

section \<open>The properties of the specification\<close>

subsection \<open>C1: one start at most, one end, last\<close>

text \<open>
  C1 (amended). For every finite sequence of queued events and every normalizer,
  configuration and environment, \<^verbatim>\<open>_startOnce\<close> dispatches \<^verbatim>\<open>start\<close> at most once. If
  the loop is left (its condition is false, or a \<^verbatim>\<open>break\<close>), \<^verbatim>\<open>end\<close> is dispatched
  exactly once and is the last event dispatched. If the queue runs out while the loop
  awaits its next event, or \<^verbatim>\<open>_startOnce\<close> is rejected, no \<^verbatim>\<open>end\<close> is dispatched.
\<close>

theorem start_at_most_once_end_last:
  "count_list (dispatched (session (startOnce toResultList cfg env c queue))) Start \<le> 1 \<and>
   (if exited (startOnce toResultList cfg env c queue)
    then count_list (dispatched (session (startOnce toResultList cfg env c queue))) End = 1 \<and>
         last (dispatched (session (startOnce toResultList cfg env c queue))) = End
    else End \<notin> set (dispatched (session (startOnce toResultList cfg env c queue))))"
proof -
  have fin: "\<And>s. End \<notin> set (dispatched s) \<Longrightarrow> count_list (dispatched s) Start \<le> 1 \<Longrightarrow>
     count_list (dispatched (finish s)) Start \<le> 1 \<and> count_list (dispatched (finish s)) End = 1 \<and>
     last (dispatched (finish s)) = End"
    by (auto simp: finish_dispatched count_list_0_iff split: option.splits final_event.splits)
  show ?thesis
    using loop_start_end[of toResultList cfg env c queue] fin
    by (auto simp: startOnce_def session_def exited_def split: option.splits outcome.splits)
qed

text \<open>
  The session of \<^verbatim>\<open>[audioSourceReady, audioSourceOff]\<close> leaves the loop: one \<^verbatim>\<open>end\<close>,
  last.
\<close>

theorem start_at_most_once_end_last_witness:
  "exited (startOnce cognitiveServiceEventResultToWebSpeechRecognitionResultList
             defaults resolving fresh [AudioSourceReady, AudioSourceOff]) \<and>
   count_list (dispatched (session (startOnce
      cognitiveServiceEventResultToWebSpeechRecognitionResultList
      defaults resolving fresh [AudioSourceReady, AudioSourceOff]))) End = 1 \<and>
   last (dispatched (session (startOnce
      cognitiveServiceEventResultToWebSpeechRecognitionResultList
      defaults resolving fresh [AudioSourceReady, AudioSourceOff]))) = End"
proof -
  have "exited (startOnce cognitiveServiceEventResultToWebSpeechRecognitionResultList
             defaults resolving fresh [AudioSourceReady, AudioSourceOff])"
    by (simp add: run_simps)
  then show ?thesis
    using start_at_most_once_end_last
      [where toResultList = cognitiveServiceEventResultToWebSpeechRecognitionResultList
         and cfg = defaults and env = resolving and c = fresh
         and queue = "[AudioSourceReady, AudioSourceOff]"]
    by simp
qed

text \<open>
  Without the condition that the loop is left, C1 fails on the queue
  \<^verbatim>\<open>[audioSourceReady]\<close>: \<^verbatim>\<open>start\<close> and
  \<^verbatim>\<open>audiostart\<close> are dispatched, the loop awaits an event that never comes, and no
  \<^verbatim>\<open>end\<close> is dispatched.
\<close>

theorem end_missing_while_waiting:
  "dispatched (session (startOnce cognitiveServiceEventResultToWebSpeechRecognitionResultList
      defaults resolving fresh [AudioSourceReady])) =
     [CognitiveServices AudioSourceReady, Start, AudioStart] \<and>
   count_list (dispatched (session (startOnce
      cognitiveServiceEventResultToWebSpeechRecognitionResultList
      defaults resolving fresh [AudioSourceReady]))) End = 0"
  by (simp add: run_simps)

subsection \<open>C2: start and end events in pairs\<close>

text \<open>
  C2 (amended). For every finite sequence of queued events, \<^verbatim>\<open>speechstart\<close> and each of
  \<^verbatim>\<open>audioend\<close>, \<^verbatim>\<open>soundend\<close> and \<^verbatim>\<open>speechend\<close> are dispatched at most once, and an end
  event is dispatched only if its start event is. If the loop is left, each of the three
  end events is dispatched if and only if its start event is.
\<close>

theorem start_end_pairs:
  "(let d = dispatched (session (startOnce toResultList cfg env c queue)) in
     count_list d SpeechStart \<le> 1 \<and> count_list d AudioEnd \<le> 1 \<and>
     count_list d SoundEnd \<le> 1 \<and> count_list d SpeechEnd \<le> 1 \<and>
     (AudioEnd \<in> set d \<longrightarrow> AudioStart \<in> set d) \<and>
     (SoundEnd \<in> set d \<longrightarrow> SoundStart \<in> set d) \<and>
     (SpeechEnd \<in> set d \<longrightarrow> SpeechStart \<in> set d) \<and>
     (exited (startOnce toResultList cfg env c queue) \<longrightarrow>
        (AudioStart \<in> set d) = (AudioEnd \<in> set d) \<and>
        (SoundStart \<in> set d) = (SoundEnd \<in> set d) \<and>
        (SpeechStart \<in> set d) = (SpeechEnd \<in> set d)))"
proof (cases "createRecognizer env = None \<and> startContinuousRecognitionAsync env = None")
  case False
  then show ?thesis
    by (auto simp: startOnce_def session_def exited_def initial_def entered_def split: option.splits)
next
  case True
  show ?thesis
  proof (cases "run_loop toResultList cfg env (initial c) queue")
    case (Exited s)
    then have "paired_left s" using loop_paired[of toResultList cfg env c queue] by simp
    from finish_paired[OF this] show ?thesis using True Exited
      by (simp add: startOnce_def session_def exited_def Let_def)
  next
    case (Waiting s)
    then have "paired_running s" using loop_paired[of toResultList cfg env c queue] by simp
    then show ?thesis using True Waiting
      by (simp add: startOnce_def session_def exited_def Let_def paired_running_def count_list_0_iff)
  next
    case (Rejected f s)
    then have "paired_running s" using loop_paired[of toResultList cfg env c queue] by simp
    then show ?thesis using True Rejected
      by (simp add: startOnce_def session_def exited_def Let_def paired_running_def count_list_0_iff)
  qed
qed

text \<open>
  A session that backfills nothing and is left on \<^verbatim>\<open>audioSourceOff\<close>: every start event
  has its end event.
\<close>

theorem start_end_pairs_witness:
  "exited (startOnce cognitiveServiceEventResultToWebSpeechRecognitionResultList defaults resolving
      fresh [AudioSourceReady, FirstAudibleChunk,
             Recognizing \<lparr> reason = RecognizingSpeech, NBest = [] \<rparr>, AudioSourceOff]) \<and>
   lifecycle (dispatched (session (startOnce
      cognitiveServiceEventResultToWebSpeechRecognitionResultList defaults resolving
      fresh [AudioSourceReady, FirstAudibleChunk,
             Recognizing \<lparr> reason = RecognizingSpeech, NBest = [] \<rparr>, AudioSourceOff]))) =
     [Start, AudioStart, SoundStart, SpeechStart, SpeechEnd, SoundEnd, AudioEnd, End] \<and>
   count_list (dispatched (session (startOnce
      cognitiveServiceEventResultToWebSpeechRecognitionResultList defaults resolving
      fresh [AudioSourceReady, FirstAudibleChunk,
             Recognizing \<lparr> reason = RecognizingSpeech, NBest = [] \<rparr>, AudioSourceOff])))
     SpeechStart \<le> 1"
proof -
  have "exited (startOnce cognitiveServiceEventResultToWebSpeechRecognitionResultList defaults resolving
      fresh [AudioSourceReady, FirstAudibleChunk,
             Recognizing \<lparr> reason = RecognizingSpeech, NBest = [] \<rparr>, AudioSourceOff])"
    and "lifecycle (dispatched (session (startOnce
      cognitiveServiceEventResultToWebSpeechRecognitionResultList defaults resolving
      fresh [AudioSourceReady, FirstAudibleChunk,
             Recognizing \<lparr> reason = RecognizingSpeech, NBest = [] \<rparr>, AudioSourceOff]))) =
     [Start, AudioStart, SoundStart, SpeechStart, SpeechEnd, SoundEnd, AudioEnd, End]"
    by (simp_all add: run_simps)
  then show ?thesis
    using start_end_pairs
      [where toResultList = cognitiveServiceEventResultToWebSpeechRecognitionResultList
         and cfg = defaults and env = resolving and c = fresh
         and queue = "[AudioSourceReady, FirstAudibleChunk,
             Recognizing \<lparr> reason = RecognizingSpeech, NBest = [] \<rparr>, AudioSourceOff]"]
    by (simp add: Let_def)
qed

text \<open>
  C2 itself fails twice. A \<^verbatim>\<open>firstAudibleChunk\<close> event that follows a \<^verbatim>\<open>recognizing\<close>
  event dispatches \<^verbatim>\<open>soundstart\<close> a second time, since only the backfill of a
  recognition event tests the flag. And on the queue \<^verbatim>\<open>[audioSourceReady]\<close> the loop
  awaits its next event after \<^verbatim>\<open>audiostart\<close>, with no \<^verbatim>\<open>audioend\<close> dispatched.
\<close>

theorem start_twice_or_unpaired:
  "lifecycle (dispatched (session (startOnce
      cognitiveServiceEventResultToWebSpeechRecognitionResultList defaults resolving fresh
      [AudioSourceReady, Recognizing \<lparr> reason = RecognizingSpeech, NBest = [] \<rparr>,
       FirstAudibleChunk, AudioSourceOff]))) =
     [Start, AudioStart, SoundStart, SpeechStart, SoundStart, SpeechEnd, SoundEnd, AudioEnd, End] \<and>
   lifecycle (dispatched (session (startOnce
      cognitiveServiceEventResultToWebSpeechRecognitionResultList defaults resolving fresh
      [AudioSourceReady]))) = [Start, AudioStart]"
  by (simp add: run_simps)

subsection \<open>C3: a denied microphone\<close>

text \<open>
  C3. When the recognizer was created and started, and the queue holds exactly one
  \<^verbatim>\<open>canceled\<close> event whose error text matches \<^verbatim>\<open>/Permission\sdenied/u\<close>, the loop is
  left and the lifecycle events dispatched are exactly \<^verbatim>\<open>error\<close> with code
  \<^verbatim>\<open>not-allowed\<close>, then \<^verbatim>\<open>end\<close>; \<^verbatim>\<open>start\<close> is never dispatched.
\<close>

theorem permission_denied_only:
  assumes "createRecognizer env = None" and "startContinuousRecognitionAsync env = None"
    and "regex_test PermissionDenied errorDetails"
  shows "exited (startOnce toResultList cfg env c [Canceled (Some errorDetails)]) \<and>
         lifecycle (dispatched (session
            (startOnce toResultList cfg env c [Canceled (Some errorDetails)]))) =
           [Error (Code ''not-allowed''), End] \<and>
         Start \<notin> set (dispatched (session
            (startOnce toResultList cfg env c [Canceled (Some errorDetails)])))"
  using assms
  by (simp add: startOnce_def session_def exited_def body_Canceled lifecycle_def finish_dispatched)

text \<open>The error text \<^verbatim>\<open>Permission denied\<close>, under the default configuration.\<close>

theorem permission_denied_only_witness:
  "regex_test PermissionDenied ''Permission denied'' \<and>
   createRecognizer resolving = None \<and> startContinuousRecognitionAsync resolving = None \<and>
   lifecycle (dispatched (session (startOnce
      cognitiveServiceEventResultToWebSpeechRecognitionResultList
      defaults resolving fresh [Canceled (Some ''Permission denied'')]))) =
     [Error (Code ''not-allowed''), End]"
proof -
  have m: "regex_test PermissionDenied ''Permission denied''"
    by (simp add: PermissionDenied_def literal_def whitespace_def)
  have r: "createRecognizer resolving = None" "startContinuousRecognitionAsync resolving = None"
    by (simp_all add: resolving_def)
  show ?thesis
    using m r permission_denied_only [OF r m,
      where toResultList = cognitiveServiceEventResultToWebSpeechRecognitionResultList
        and cfg = defaults and c = fresh]
    by simp
qed

subsection \<open>C4: a recognized event with an empty n-best list\<close>




subsection \<open>C5: a single utterance stops the recognition\<close>

text \<open>
  C5 (amended). When \<^verbatim>\<open>continuous\<close> is false and the loop processes a \<^verbatim>\<open>recognized\<close>
  event whose reason is not \<^verbatim>\<open>NoMatch\<close> and whose top alternative has a non-empty
  transcript, it calls \<^verbatim>\<open>stopContinuousRecognitionAsync\<close> on the recognizer, without
  awaiting it, and goes on awaiting events. A \<^verbatim>\<open>recognizing\<close> event dequeued afterwards
  in the same session dispatches its debugging event and, exactly when
  \<^verbatim>\<open>interimResults\<close> is set, one \<^verbatim>\<open>result\<close> event: the finalized results followed by
  the interim one. With \<^verbatim>\<open>interimResults\<close> false it dispatches no \<^verbatim>\<open>result\<close> event.
\<close>

theorem single_shot_stops_recognition:
  assumes "\<not> continuous cfg"
    and "reason r \<noteq> NoMatch" and "recognizable toResultList cfg r"
    and "run_loop toResultList cfg env s (Recognized r # mid) = Waiting s2"
  shows "\<exists>s1 s3.
     run_loop toResultList cfg env s [Recognized r] = Waiting s1 \<and>
     calls s1 = calls s @ [StopContinuousRecognitionAsync False] \<and>
     run_loop toResultList cfg env s (Recognized r # mid @ [Recognizing r']) = Waiting s3 \<and>
     dispatched s3 = dispatched s2 @ CognitiveServices (Recognizing r') #
       (if interimResults cfg
        then [Result (finalizedResults s2 @
                [toResultList r' (maxAlternatives cfg) (textNormalization cfg)])]
        else [])"
proof -
  from run_loop_Cons_Waiting[OF assms(4)] obtain s' where
    b1: "body toResultList cfg env (Recognized r) s = (Next, s')"
    and aw: "\<not> stopping s \<or> audioStarted s"
    and rest: "run_loop toResultList cfg env (s'\<lparr> loop := loop s' + 1 \<rparr>) mid = Waiting s2" by blast
  define s1 where "s1 = s'\<lparr> loop := loop s' + 1 \<rparr>"
  from body_recognizable[OF assms(2,3), of env s] b1 assms(1)
  have c1: "calls s1 = calls s @ [StopContinuousRecognitionAsync False]"
    and fl: "audioStarted s1" "soundStarted s1" "speechStarted s1" "0 < loop s1"
    by (simp_all add: s1_def)
  have w1: "run_loop toResultList cfg env s [Recognized r] = Waiting s1"
    using aw b1 fl(1) by (auto simp: s1_def)
  from run_loop_flags[OF rest[folded s1_def] fl]
  have fl2: "audioStarted s2" "soundStarted s2" "speechStarted s2" "0 < loop s2" by simp_all
  define s3 where "s3 = (snd (body toResultList cfg env (Recognizing r') s2))\<lparr> loop := loop s2 + 1 \<rparr>"
  have "run_loop toResultList cfg env s2 [Recognizing r'] = Waiting s3"
    using fl2 by (simp add: body_Recognizing s3_def)
  then have w3: "run_loop toResultList cfg env s (Recognized r # mid @ [Recognizing r']) = Waiting s3"
    using run_loop_append[OF assms(4), of "[Recognizing r']"] by simp
  have d3: "dispatched s3 = dispatched s2 @ CognitiveServices (Recognizing r') #
       (if interimResults cfg
        then [Result (finalizedResults s2 @
                [toResultList r' (maxAlternatives cfg) (textNormalization cfg)])]
        else [])"
    using fl2 by (simp add: s3_def body_Recognizing)
  show ?thesis using w1 c1 w3 d3 by blast
qed

text \<open>
  Under the default configuration, where \<^verbatim>\<open>interimResults\<close> is false: the utterance
  \<^verbatim>\<open>hello\<close>, then an interim result. The recognizer is told to stop, and no
  \<^verbatim>\<open>result\<close> event is dispatched while the loop awaits more events.
\<close>

theorem single_shot_stops_recognition_witness:
  "\<not> continuous defaults \<and> reason (heard ''hello'') \<noteq> NoMatch \<and>
   recognizable cognitiveServiceEventResultToWebSpeechRecognitionResultList defaults (heard ''hello'') \<and>
   (\<exists>s2 s1 s3.
      run_loop cognitiveServiceEventResultToWebSpeechRecognitionResultList defaults resolving (initial fresh) (Recognized (heard ''hello'') # []) = Waiting s2 \<and>
      run_loop cognitiveServiceEventResultToWebSpeechRecognitionResultList defaults resolving (initial fresh) [Recognized (heard ''hello'')] = Waiting s1 \<and>
      calls s1 = calls (initial fresh) @ [StopContinuousRecognitionAsync False] \<and>
      run_loop cognitiveServiceEventResultToWebSpeechRecognitionResultList defaults resolving (initial fresh)
        (Recognized (heard ''hello'') # [] @ [Recognizing (hearing ''hel'')]) = Waiting s3 \<and>
      dispatched s3 = dispatched s2 @ CognitiveServices (Recognizing (hearing ''hel'')) #
        (if interimResults defaults
         then [Result (finalizedResults s2 @
                 [cognitiveServiceEventResultToWebSpeechRecognitionResultList (hearing ''hel'') (maxAlternatives defaults) (textNormalization defaults)])]
         else [])) \<and>
   lifecycle (dispatched (session (startOnce cognitiveServiceEventResultToWebSpeechRecognitionResultList defaults resolving fresh
      [Recognized (heard ''hello''), Recognizing (hearing ''hel'')]))) =
     [Start, AudioStart, SoundStart, SpeechStart] \<and>
   calls (session (startOnce cognitiveServiceEventResultToWebSpeechRecognitionResultList defaults resolving fresh
      [Recognized (heard ''hello''), Recognizing (hearing ''hel'')])) =
     [StopContinuousRecognitionAsync False]"
proof -
  have h: "\<not> continuous defaults" "reason (heard ''hello'') \<noteq> NoMatch"
    "recognizable cognitiveServiceEventResultToWebSpeechRecognitionResultList defaults (heard ''hello'')"
    by (simp_all add: defaults_def heard_def recognizable_def
          cognitiveServiceEventResultToWebSpeechRecognitionResultList_def rendering_def)
  have "\<exists>s2. run_loop cognitiveServiceEventResultToWebSpeechRecognitionResultList defaults resolving (initial fresh) (Recognized (heard ''hello'') # []) =
      Waiting s2"
    by (simp add: run_simps)
  then obtain s2 where w: "run_loop cognitiveServiceEventResultToWebSpeechRecognitionResultList defaults resolving (initial fresh)
      (Recognized (heard ''hello'') # []) = Waiting s2" by blast
  have l: "lifecycle (dispatched (session (startOnce cognitiveServiceEventResultToWebSpeechRecognitionResultList defaults resolving fresh
      [Recognized (heard ''hello''), Recognizing (hearing ''hel'')]))) =
     [Start, AudioStart, SoundStart, SpeechStart]"
    "calls (session (startOnce cognitiveServiceEventResultToWebSpeechRecognitionResultList defaults resolving fresh
      [Recognized (heard ''hello''), Recognizing (hearing ''hel'')])) =
     [StopContinuousRecognitionAsync False]"
    by (simp_all add: run_simps)
  from single_shot_stops_recognition [OF h w, of "hearing ''hel''"] w
  have "\<exists>s2 s1 s3.
      run_loop cognitiveServiceEventResultToWebSpeechRecognitionResultList defaults resolving (initial fresh) (Recognized (heard ''hello'') # []) = Waiting s2 \<and>
      run_loop cognitiveServiceEventResultToWebSpeechRecognitionResultList defaults resolving (initial fresh) [Recognized (heard ''hello'')] = Waiting s1 \<and>
      calls s1 = calls (initial fresh) @ [StopContinuousRecognitionAsync False] \<and>
      run_loop cognitiveServiceEventResultToWebSpeechRecognitionResultList defaults resolving (initial fresh)
        (Recognized (heard ''hello'') # [] @ [Recognizing (hearing ''hel'')]) = Waiting s3 \<and>
      dispatched s3 = dispatched s2 @ CognitiveServices (Recognizing (hearing ''hel'')) #
        (if interimResults defaults
         then [Result (finalizedResults s2 @
                 [cognitiveServiceEventResultToWebSpeechRecognitionResultList (hearing ''hel'') (maxAlternatives defaults) (textNormalization defaults)])]
         else [])"
    by blast
  then show ?thesis using h l by blast
qed

text \<open>
  With \<^verbatim>\<open>interimResults\<close> set, the second half of C5 fails: the \<^verbatim>\<open>recognizing\<close> event
  that follows the recognized utterance dispatches a \<^verbatim>\<open>result\<close> event, the first of the
  two below; the second is the staged terminal event.
\<close>

theorem interim_result_after_single_shot:
  "lifecycle (dispatched (session (startOnce cognitiveServiceEventResultToWebSpeechRecognitionResultList (defaults\<lparr> interimResults := True \<rparr>) resolving
      fresh [Recognized (heard ''hello''), Recognizing (hearing ''hel''), AudioSourceOff]))) =
     [Start, AudioStart, SoundStart, SpeechStart,
      Result [\<lparr> alternatives = [\<lparr> transcript = ''hello'', confidence = Some 1 \<rparr>], isFinal = True \<rparr>,
              \<lparr> alternatives = [\<lparr> transcript = ''hel'', confidence = Some 1 \<rparr>], isFinal = False \<rparr>],
      SpeechEnd, SoundEnd, AudioEnd,
      Result [\<lparr> alternatives = [\<lparr> transcript = ''hello'', confidence = Some 1 \<rparr>], isFinal = True \<rparr>],
      End] \<and>
   calls (session (startOnce cognitiveServiceEventResultToWebSpeechRecognitionResultList (defaults\<lparr> interimResults := True \<rparr>) resolving
      fresh [Recognized (heard ''hello''), Recognizing (hearing ''hel''), AudioSourceOff])) =
     [StopContinuousRecognitionAsync False]"
  by (simp add: run_simps)

subsection \<open>C6: cumulative results in continuous mode\<close>

text \<open>
  C6. When \<^verbatim>\<open>continuous\<close> is true, every \<^verbatim>\<open>recognized\<close> event that the loop dequeues,
  whose reason is not \<^verbatim>\<open>NoMatch\<close> (the loop tests the reason first) and whose top
  alternative has a non-empty transcript, appends its result to \<^verbatim>\<open>finalizedResults\<close>
  and dispatches in the same iteration one \<^verbatim>\<open>result\<close> event, the last event of the
  iteration, whose payload is \<^verbatim>\<open>finalizedResults\<close>. For two such events of one session,
  the payload of the later is at least as long as the payload of the earlier.
\<close>

theorem continuous_results_cumulative:
  assumes "continuous cfg"
    and "reason r1 \<noteq> NoMatch" and "recognizable toResultList cfg r1"
    and "reason r2 \<noteq> NoMatch" and "recognizable toResultList cfg r2"
    and "run_loop toResultList cfg env s (Recognized r1 # mid) = Waiting s2"
  shows "\<exists>s1 s3 pre1 pre3.
     run_loop toResultList cfg env s [Recognized r1] = Waiting s1 \<and>
     finalizedResults s1 =
       finalizedResults s @ [toResultList r1 (maxAlternatives cfg) (textNormalization cfg)] \<and>
     dispatched s1 = dispatched s @ pre1 @ [Result (finalizedResults s1)] \<and>
     (\<forall>rs. Result rs \<notin> set pre1) \<and>
     run_loop toResultList cfg env s (Recognized r1 # mid @ [Recognized r2]) = Waiting s3 \<and>
     finalizedResults s3 =
       finalizedResults s2 @ [toResultList r2 (maxAlternatives cfg) (textNormalization cfg)] \<and>
     dispatched s3 = dispatched s2 @ pre3 @ [Result (finalizedResults s3)] \<and>
     (\<forall>rs. Result rs \<notin> set pre3) \<and>
     length (finalizedResults s1) \<le> length (finalizedResults s3)"
proof -
  from run_loop_Cons_Waiting[OF assms(6)] obtain s' where
    b1: "body toResultList cfg env (Recognized r1) s = (Next, s')"
    and aw: "\<not> stopping s \<or> audioStarted s"
    and r: "run_loop toResultList cfg env (s'\<lparr> loop := loop s' + 1 \<rparr>) mid = Waiting s2" by blast
  define s1 where "s1 = s'\<lparr> loop := loop s' + 1 \<rparr>"
  from body_recognizable[OF assms(2,3), of env s] b1 assms(1)
  have f1: "finalizedResults s1 =
       finalizedResults s @ [toResultList r1 (maxAlternatives cfg) (textNormalization cfg)]"
    and d1: "dispatched s1 = dispatched s @ (CognitiveServices (Recognized r1) #
       (if loop s = 0 then [Start] else []) @
       (if audioStarted s then [] else [AudioStart]) @
       (if soundStarted s then [] else [SoundStart]) @
       (if speechStarted s then [] else [SpeechStart])) @ [Result (finalizedResults s1)]"
    and a1: "audioStarted s1"
    by (simp_all add: s1_def)
  have w1: "run_loop toResultList cfg env s [Recognized r1] = Waiting s1"
    using aw b1 a1 by (auto simp: s1_def)
  have aw2: "\<not> stopping s2 \<or> audioStarted s2"
    using run_loop_Waiting_awaits[OF assms(6)] .
  from body_recognizable[OF assms(4,5), of env s2] obtain s3' where
    b3: "body toResultList cfg env (Recognized r2) s2 = (Next, s3')"
    and f3: "finalizedResults s3' =
       finalizedResults s2 @ [toResultList r2 (maxAlternatives cfg) (textNormalization cfg)]"
    and d3: "dispatched s3' = dispatched s2 @ CognitiveServices (Recognized r2) #
       (if loop s2 = 0 then [Start] else []) @
       (if audioStarted s2 then [] else [AudioStart]) @
       (if soundStarted s2 then [] else [SoundStart]) @
       (if speechStarted s2 then [] else [SpeechStart]) @
       (if continuous cfg \<or> looseEvents cfg then [Result (finalizedResults s3')] else [])"
    and a3: "audioStarted s3'" by blast
  define s3 where "s3 = s3'\<lparr> loop := loop s3' + 1 \<rparr>"
  have "run_loop toResultList cfg env s2 [Recognized r2] = Waiting s3"
    using aw2 b3 a3 by (auto simp: s3_def)
  then have w3: "run_loop toResultList cfg env s (Recognized r1 # mid @ [Recognized r2]) = Waiting s3"
    using run_loop_append[OF assms(6), of "[Recognized r2]"] by simp
  have d3': "dispatched s3 = dispatched s2 @ (CognitiveServices (Recognized r2) #
       (if loop s2 = 0 then [Start] else []) @
       (if audioStarted s2 then [] else [AudioStart]) @
       (if soundStarted s2 then [] else [SoundStart]) @
       (if speechStarted s2 then [] else [SpeechStart])) @ [Result (finalizedResults s3)]"
    using d3 assms(1) by (simp add: s3_def)
  have f3': "finalizedResults s3 =
       finalizedResults s2 @ [toResultList r2 (maxAlternatives cfg) (textNormalization cfg)]"
    using f3 by (simp add: s3_def)
  have "length (finalizedResults s1) \<le> length (finalizedResults s2)"
    using run_loop_finalizedResults[OF r] by (simp add: s1_def)
  then have len: "length (finalizedResults s1) \<le> length (finalizedResults s3)"
    using f3' by simp
  show ?thesis
    apply (rule exI[of _ s1], rule exI[of _ s3])
    apply (rule exI[of _ "CognitiveServices (Recognized r1) #
       (if loop s = 0 then [Start] else []) @
       (if audioStarted s then [] else [AudioStart]) @
       (if soundStarted s then [] else [SoundStart]) @
       (if speechStarted s then [] else [SpeechStart])"])
    apply (rule exI[of _ "CognitiveServices (Recognized r2) #
       (if loop s2 = 0 then [Start] else []) @
       (if audioStarted s2 then [] else [AudioStart]) @
       (if soundStarted s2 then [] else [SoundStart]) @
       (if speechStarted s2 then [] else [SpeechStart])"])
    using w1 f1 d1 w3 f3' d3' len by simp
qed

text \<open>Two utterances in continuous mode: payloads of one and of two results.\<close>

theorem continuous_results_cumulative_witness:
  "continuous (defaults\<lparr> continuous := True \<rparr>) \<and>
   recognizable cognitiveServiceEventResultToWebSpeechRecognitionResultList (defaults\<lparr> continuous := True \<rparr>) (heard ''hello'') \<and>
   recognizable cognitiveServiceEventResultToWebSpeechRecognitionResultList (defaults\<lparr> continuous := True \<rparr>) (heard ''world'') \<and>
   (\<exists>s2 s1 s3 pre1 pre3.
      run_loop cognitiveServiceEventResultToWebSpeechRecognitionResultList (defaults\<lparr> continuous := True \<rparr>) resolving (initial fresh)
        (Recognized (heard ''hello'') # [SpeechEndDetected]) = Waiting s2 \<and>
      run_loop cognitiveServiceEventResultToWebSpeechRecognitionResultList (defaults\<lparr> continuous := True \<rparr>) resolving (initial fresh)
        [Recognized (heard ''hello'')] = Waiting s1 \<and>
      dispatched s1 = dispatched (initial fresh) @ pre1 @ [Result (finalizedResults s1)] \<and>
      run_loop cognitiveServiceEventResultToWebSpeechRecognitionResultList (defaults\<lparr> continuous := True \<rparr>) resolving (initial fresh)
        (Recognized (heard ''hello'') # [SpeechEndDetected] @ [Recognized (heard ''world'')]) =
        Waiting s3 \<and>
      dispatched s3 = dispatched s2 @ pre3 @ [Result (finalizedResults s3)] \<and>
      length (finalizedResults s1) \<le> length (finalizedResults s3)) \<and>
   lifecycle (dispatched (session (startOnce cognitiveServiceEventResultToWebSpeechRecognitionResultList (defaults\<lparr> continuous := True \<rparr>) resolving fresh
      [Recognized (heard ''hello''), SpeechEndDetected, Recognized (heard ''world'')]))) =
     [Start, AudioStart, SoundStart, SpeechStart,
      Result [\<lparr> alternatives = [\<lparr> transcript = ''hello'', confidence = Some 1 \<rparr>], isFinal = True \<rparr>],
      Result [\<lparr> alternatives = [\<lparr> transcript = ''hello'', confidence = Some 1 \<rparr>], isFinal = True \<rparr>,
              \<lparr> alternatives = [\<lparr> transcript = ''world'', confidence = Some 1 \<rparr>], isFinal = True \<rparr>]]"
proof -
  have h: "continuous (defaults\<lparr> continuous := True \<rparr>)"
    "reason (heard ''hello'') \<noteq> NoMatch"
    "recognizable cognitiveServiceEventResultToWebSpeechRecognitionResultList (defaults\<lparr> continuous := True \<rparr>) (heard ''hello'')"
    "reason (heard ''world'') \<noteq> NoMatch"
    "recognizable cognitiveServiceEventResultToWebSpeechRecognitionResultList (defaults\<lparr> continuous := True \<rparr>) (heard ''world'')"
    by (simp_all add: defaults_def heard_def recognizable_def
          cognitiveServiceEventResultToWebSpeechRecognitionResultList_def rendering_def)
  have "\<exists>s2. run_loop cognitiveServiceEventResultToWebSpeechRecognitionResultList (defaults\<lparr> continuous := True \<rparr>) resolving (initial fresh)
        (Recognized (heard ''hello'') # [SpeechEndDetected]) = Waiting s2"
    by (simp add: run_simps)
  then obtain s2 where w: "run_loop cognitiveServiceEventResultToWebSpeechRecognitionResultList (defaults\<lparr> continuous := True \<rparr>) resolving (initial fresh)
        (Recognized (heard ''hello'') # [SpeechEndDetected]) = Waiting s2" by blast
  have l: "lifecycle (dispatched (session (startOnce cognitiveServiceEventResultToWebSpeechRecognitionResultList (defaults\<lparr> continuous := True \<rparr>) resolving fresh
      [Recognized (heard ''hello''), SpeechEndDetected, Recognized (heard ''world'')]))) =
     [Start, AudioStart, SoundStart, SpeechStart,
      Result [\<lparr> alternatives = [\<lparr> transcript = ''hello'', confidence = Some 1 \<rparr>], isFinal = True \<rparr>],
      Result [\<lparr> alternatives = [\<lparr> transcript = ''hello'', confidence = Some 1 \<rparr>], isFinal = True \<rparr>,
              \<lparr> alternatives = [\<lparr> transcript = ''world'', confidence = Some 1 \<rparr>], isFinal = True \<rparr>]]"
    by (simp add: run_simps)
  from continuous_results_cumulative [OF h w] w
  have "\<exists>s2 s1 s3 pre1 pre3.
      run_loop cognitiveServiceEventResultToWebSpeechRecognitionResultList (defaults\<lparr> continuous := True \<rparr>) resolving (initial fresh)
        (Recognized (heard ''hello'') # [SpeechEndDetected]) = Waiting s2 \<and>
      run_loop cognitiveServiceEventResultToWebSpeechRecognitionResultList (defaults\<lparr> continuous := True \<rparr>) resolving (initial fresh)
        [Recognized (heard ''hello'')] = Waiting s1 \<and>
      dispatched s1 = dispatched (initial fresh) @ pre1 @ [Result (finalizedResults s1)] \<and>
      run_loop cognitiveServiceEventResultToWebSpeechRecognitionResultList (defaults\<lparr> continuous := True \<rparr>) resolving (initial fresh)
        (Recognized (heard ''hello'') # [SpeechEndDetected] @ [Recognized (heard ''world'')]) =
        Waiting s3 \<and>
      dispatched s3 = dispatched s2 @ pre3 @ [Result (finalizedResults s3)] \<and>
      length (finalizedResults s1) \<le> length (finalizedResults s3)"
    by blast
  then show ?thesis using h l by blast
qed

subsection \<open>C7: a muted read\<close>

text \<open>
  C7 (amended). For every read performed while \<^verbatim>\<open>muted\<close> is set, for which the
  reader's own \<^verbatim>\<open>read\<close> produces a chunk whose buffer is null or has an even number of
  bytes (whole 16-bit samples), the wrapped reader returns a chunk with a buffer of
  length zero, \<^verbatim>\<open>isEnd\<close> true and the current time, whatever the chunk holds, and
  \<^verbatim>\<open>muted\<close> stays set. For a buffer with an odd number of bytes the read fails with the
  RangeError of the amplitude inspection, which runs first.
\<close>

theorem muted_read_end_of_stream:
  assumes "muted c"
  shows "(if (case buffer chunk of None \<Rightarrow> True | Some bytes \<Rightarrow> even (length bytes))
          then \<exists>c' pushed.
                 read (Inr chunk) now c =
                   Inr (\<lparr> buffer = Some [], isEnd = True, timeReceived = now \<rparr>, c', pushed) \<and>
                 muted c'
          else read (Inr chunk) now c = Inl RangeError)"
  using assms
  by (auto simp: read_def improviseAsync_def improviser_def averageAmplitude_def Int16Array_def
        Let_def split: option.splits)

text \<open>A muted read of two samples of amplitude 1000, with the callback disarmed.\<close>

theorem muted_read_end_of_stream_witness:
  "muted \<lparr> muted = True, onAudibleChunk = False \<rparr> \<and>
   read (Inr \<lparr> buffer = Some [0xE8, 0x03, 0x18, 0xFC], isEnd = False, timeReceived = 7 \<rparr>) 9
     \<lparr> muted = True, onAudibleChunk = False \<rparr> =
     Inr (\<lparr> buffer = Some [], isEnd = True, timeReceived = 9 \<rparr>,
          \<lparr> muted = True, onAudibleChunk = False \<rparr>, [])"
proof -
  have m: "muted \<lparr> muted = True, onAudibleChunk = False \<rparr>" by simp
  have "read (Inr \<lparr> buffer = Some [0xE8, 0x03, 0x18, 0xFC], isEnd = False, timeReceived = 7 \<rparr>) 9
     \<lparr> muted = True, onAudibleChunk = False \<rparr> =
     Inr (\<lparr> buffer = Some [], isEnd = True, timeReceived = 9 \<rparr>,
          \<lparr> muted = True, onAudibleChunk = False \<rparr>, [])"
    by (simp add: read_def improviseAsync_def improviser_def averageAmplitude_def Int16Array_def
          exceeds_def word_cat_eq)
  then show ?thesis
    using m muted_read_end_of_stream [OF m,
      of "\<lparr> buffer = Some [0xE8, 0x03, 0x18, 0xFC], isEnd = False, timeReceived = 7 \<rparr>" 9]
    by simp
qed

text \<open>
  Without the condition on the length, C7 fails on a chunk whose buffer holds a single
  byte: the read while
  muted fails and returns no chunk.
\<close>

theorem muted_read_odd_buffer:
  "read (Inr \<lparr> buffer = Some [0x01], isEnd = False, timeReceived = 7 \<rparr>) 9
     \<lparr> muted = True, onAudibleChunk = False \<rparr> = Inl RangeError"
  by (simp add: read_def improviseAsync_def improviser_def averageAmplitude_def Int16Array_def)

subsection \<open>C8: \<^verbatim>\<open>start\<close> catches every failure\<close>

text \<open>
  C8. \<^verbatim>\<open>start\<close> returns without a failure, and every failure raised in the start-up or
  in the loop reaches the caller as one \<^verbatim>\<open>error\<close> event carrying it. When the creation
  of the recognizer or \<^verbatim>\<open>startContinuousRecognitionAsync\<close> is rejected, that event is
  all \<^verbatim>\<open>start\<close> dispatches. When the awaited \<^verbatim>\<open>stopContinuousRecognitionAsync\<close> is
  rejected on an \<^verbatim>\<open>abort\<close> that the loop dequeues, or a \<^verbatim>\<open>recognized\<close> result has no top
  alternative (a TypeError), the event follows what the session had dispatched, and is
  its only \<^verbatim>\<open>error\<close> event. In general, whenever \<^verbatim>\<open>_startOnce\<close> is rejected, \<^verbatim>\<open>start\<close>
  leaves the session as \<^verbatim>\<open>_startOnce\<close> left it plus that one event; and \<^verbatim>\<open>start\<close>
  dispatches an \<^verbatim>\<open>error\<close> event carrying a failure only when \<^verbatim>\<open>_startOnce\<close> was rejected
  with it.
\<close>

theorem start_catches_failure:
  "(createRecognizer env = Some f \<longrightarrow>
      dispatched (start toResultList cfg env c queue) = [Error (Caught f)]) \<and>
   (createRecognizer env = None \<and> startContinuousRecognitionAsync env = Some f \<longrightarrow>
      dispatched (start toResultList cfg env c queue) = [Error (Caught f)]) \<and>
   (createRecognizer env = None \<and> startContinuousRecognitionAsync env = None \<and>
    run_loop toResultList cfg env (initial c) pre = Waiting s \<and>
    map_of (stopContinuousRecognitionAsync env) (loop s) = Some f \<longrightarrow>
      dispatched (start toResultList cfg env c (pre @ Abort # rest)) =
        dispatched s @ CognitiveServices Abort # (if loop s = 0 then [Start] else []) @
        [Error (Caught f)] \<and>
      errors (dispatched (start toResultList cfg env c (pre @ Abort # rest))) = [Caught f]) \<and>
   (createRecognizer env = None \<and> startContinuousRecognitionAsync env = None \<and>
    run_loop toResultList cfg env (initial c) pre = Waiting s \<and> reason r \<noteq> NoMatch \<and>
    alternatives (toResultList r (maxAlternatives cfg) (textNormalization cfg)) = [] \<longrightarrow>
      dispatched (start toResultList cfg env c (pre @ Recognized r # rest)) =
        dispatched s @ CognitiveServices (Recognized r) # (if loop s = 0 then [Start] else []) @
        (if audioStarted s then [] else [AudioStart]) @
        (if soundStarted s then [] else [SoundStart]) @
        (if speechStarted s then [] else [SpeechStart]) @ [Error (Caught TypeError)] \<and>
      errors (dispatched (start toResultList cfg env c (pre @ Recognized r # rest))) =
        [Caught TypeError]) \<and>
   (\<forall>err s'. startOnce toResultList cfg env c queue = Rejected err s' \<longrightarrow>
      start toResultList cfg env c queue = dispatchEvent (Error (Caught err)) s' \<and>
      errors (dispatched (start toResultList cfg env c queue)) = [Caught err]) \<and>
   (\<forall>err. Caught err \<in> set (errors (dispatched (start toResultList cfg env c queue))) \<longrightarrow>
      (\<exists>s'. startOnce toResultList cfg env c queue = Rejected err s'))"
proof -
  have general: "\<And>q err s'. startOnce toResultList cfg env c q = Rejected err s' \<Longrightarrow>
      start toResultList cfg env c q = dispatchEvent (Error (Caught err)) s' \<and>
      errors (dispatched (start toResultList cfg env c q)) = [Caught err]"
  proof -
    fix q err s'
    assume r: "startOnce toResultList cfg env c q = Rejected err s'"
    have "errors (dispatched s') = []"
      using r loop_no_error[of toResultList cfg env c q]
      by (auto simp: startOnce_def session_def split: option.splits outcome.splits)
    then show "start toResultList cfg env c q = dispatchEvent (Error (Caught err)) s' \<and>
      errors (dispatched (start toResultList cfg env c q)) = [Caught err]"
      using r by (simp add: start_def)
  qed
  have a: "createRecognizer env = Some f \<longrightarrow>
      dispatched (start toResultList cfg env c queue) = [Error (Caught f)]"
    by (simp add: start_def startOnce_def)
  have b: "createRecognizer env = None \<and> startContinuousRecognitionAsync env = Some f \<longrightarrow>
      dispatched (start toResultList cfg env c queue) = [Error (Caught f)]"
    by (simp add: start_def startOnce_def)
  have c: "createRecognizer env = None \<and> startContinuousRecognitionAsync env = None \<and>
    run_loop toResultList cfg env (initial c) pre = Waiting s \<and>
    map_of (stopContinuousRecognitionAsync env) (loop s) = Some f \<longrightarrow>
      dispatched (start toResultList cfg env c (pre @ Abort # rest)) =
        dispatched s @ CognitiveServices Abort # (if loop s = 0 then [Start] else []) @
        [Error (Caught f)] \<and>
      errors (dispatched (start toResultList cfg env c (pre @ Abort # rest))) = [Caught f]"
  proof (intro impI, elim conjE)
    assume h: "createRecognizer env = None" "startContinuousRecognitionAsync env = None"
      "run_loop toResultList cfg env (initial c) pre = Waiting s"
      "map_of (stopContinuousRecognitionAsync env) (loop s) = Some f"
    have aw: "\<not> stopping s \<or> audioStarted s" using run_loop_Waiting_awaits[OF h(3)] .
    have "run_loop toResultList cfg env (initial c) (pre @ Abort # rest) =
        Rejected f (snd (body toResultList cfg env Abort s))"
      using run_loop_append[OF h(3), of "Abort # rest"] aw h(4) by (auto simp: body_Abort Let_def)
    then have r: "startOnce toResultList cfg env c (pre @ Abort # rest) =
        Rejected f (snd (body toResultList cfg env Abort s))"
      using h(1,2) by (simp add: startOnce_def)
    from general[OF r] have g1: "start toResultList cfg env c (pre @ Abort # rest) =
        dispatchEvent (Error (Caught f)) (snd (body toResultList cfg env Abort s))"
      and g2: "errors (dispatched (start toResultList cfg env c (pre @ Abort # rest))) = [Caught f]"
      by blast+
    have "dispatched (start toResultList cfg env c (pre @ Abort # rest)) =
        dispatched s @ CognitiveServices Abort # (if loop s = 0 then [Start] else []) @
        [Error (Caught f)]"
      unfolding g1 using h(4) by (simp add: body_Abort Let_def)
    then show "dispatched (start toResultList cfg env c (pre @ Abort # rest)) =
        dispatched s @ CognitiveServices Abort # (if loop s = 0 then [Start] else []) @
        [Error (Caught f)] \<and>
      errors (dispatched (start toResultList cfg env c (pre @ Abort # rest))) = [Caught f]"
      using g2 by blast
  qed
  have d: "createRecognizer env = None \<and> startContinuousRecognitionAsync env = None \<and>
    run_loop toResultList cfg env (initial c) pre = Waiting s \<and> reason r \<noteq> NoMatch \<and>
    alternatives (toResultList r (maxAlternatives cfg) (textNormalization cfg)) = [] \<longrightarrow>
      dispatched (start toResultList cfg env c (pre @ Recognized r # rest)) =
        dispatched s @ CognitiveServices (Recognized r) # (if loop s = 0 then [Start] else []) @
        (if audioStarted s then [] else [AudioStart]) @
        (if soundStarted s then [] else [SoundStart]) @
        (if speechStarted s then [] else [SpeechStart]) @ [Error (Caught TypeError)] \<and>
      errors (dispatched (start toResultList cfg env c (pre @ Recognized r # rest))) =
        [Caught TypeError]"
  proof (intro impI, elim conjE)
    assume h: "createRecognizer env = None" "startContinuousRecognitionAsync env = None"
      "run_loop toResultList cfg env (initial c) pre = Waiting s" "reason r \<noteq> NoMatch"
      "alternatives (toResultList r (maxAlternatives cfg) (textNormalization cfg)) = []"
    have aw: "\<not> stopping s \<or> audioStarted s" using run_loop_Waiting_awaits[OF h(3)] .
    have bd: "body toResultList cfg env (Recognized r) s =
        (Throw TypeError, backfill (firstIteration (emitCognitiveServices (Recognized r) s)))"
      using h(4,5) by (simp add: body_Recognized onRecognized_TypeError)
    have "run_loop toResultList cfg env (initial c) (pre @ Recognized r # rest) =
        Rejected TypeError (backfill (firstIteration (emitCognitiveServices (Recognized r) s)))"
      using run_loop_append[OF h(3), of "Recognized r # rest"] aw bd by auto
    then have r: "startOnce toResultList cfg env c (pre @ Recognized r # rest) =
        Rejected TypeError (backfill (firstIteration (emitCognitiveServices (Recognized r) s)))"
      using h(1,2) by (simp add: startOnce_def)
    from general[OF r] have g1: "start toResultList cfg env c (pre @ Recognized r # rest) =
        dispatchEvent (Error (Caught TypeError))
          (backfill (firstIteration (emitCognitiveServices (Recognized r) s)))"
      and g2: "errors (dispatched (start toResultList cfg env c (pre @ Recognized r # rest))) =
        [Caught TypeError]"
      by blast+
    have "dispatched (start toResultList cfg env c (pre @ Recognized r # rest)) =
        dispatched s @ CognitiveServices (Recognized r) # (if loop s = 0 then [Start] else []) @
        (if audioStarted s then [] else [AudioStart]) @
        (if soundStarted s then [] else [SoundStart]) @
        (if speechStarted s then [] else [SpeechStart]) @ [Error (Caught TypeError)]"
      unfolding g1 by simp
    then show "dispatched (start toResultList cfg env c (pre @ Recognized r # rest)) =
        dispatched s @ CognitiveServices (Recognized r) # (if loop s = 0 then [Start] else []) @
        (if audioStarted s then [] else [AudioStart]) @
        (if soundStarted s then [] else [SoundStart]) @
        (if speechStarted s then [] else [SpeechStart]) @ [Error (Caught TypeError)] \<and>
      errors (dispatched (start toResultList cfg env c (pre @ Recognized r # rest))) =
        [Caught TypeError]"
      using g2 by blast
  qed
  have e: "\<forall>err. Caught err \<in> set (errors (dispatched (start toResultList cfg env c queue))) \<longrightarrow>
      (\<exists>s'. startOnce toResultList cfg env c queue = Rejected err s')"
  proof (intro allI impI)
    fix err
    assume m: "Caught err \<in> set (errors (dispatched (start toResultList cfg env c queue)))"
    show "\<exists>s'. startOnce toResultList cfg env c queue = Rejected err s'"
    proof (cases "startOnce toResultList cfg env c queue")
      case (Exited s')
      then obtain s0 where s0: "run_loop toResultList cfg env (initial c) queue = Exited s0"
        "s' = finish s0"
        by (auto simp: startOnce_def split: option.splits outcome.splits)
      have "errors (dispatched s0) = []"
        using loop_no_error[of toResultList cfg env c queue] s0(1) by (simp add: session_def)
      then show ?thesis using m Exited s0(2) finish_errors[of s0]
        by (auto simp: start_def)
    next
      case (Waiting s')
      then have "run_loop toResultList cfg env (initial c) queue = Waiting s'"
        by (auto simp: startOnce_def split: option.splits outcome.splits)
      then have "errors (dispatched s') = []"
        using loop_no_error[of toResultList cfg env c queue] by (simp add: session_def)
      then show ?thesis using m Waiting by (simp add: start_def)
    next
      case (Rejected f' s')
      from general[OF Rejected] have "errors (dispatched (start toResultList cfg env c queue)) =
          [Caught f']" by blast
      then have "err = f'" using m by simp
      then show ?thesis using Rejected by simp
    qed
  qed
  show ?thesis using a b c d e general by blast
qed

text \<open>
  Four sessions, one for each source of failure: a rejected creation of the recognizer,
  a rejected start of the recognition, a rejected stop on \<^verbatim>\<open>abort\<close> in the second
  iteration, and a result without alternatives (\<^verbatim>\<open>maxAlternatives\<close> at 0).
\<close>

theorem start_catches_failure_witness:
  "dispatched (start cognitiveServiceEventResultToWebSpeechRecognitionResultList defaults
      (resolving\<lparr> createRecognizer := Some (Rejection ''token rejected'') \<rparr>) fresh
      [AudioSourceReady]) = [Error (Caught (Rejection ''token rejected''))] \<and>
   dispatched (start cognitiveServiceEventResultToWebSpeechRecognitionResultList defaults
      (resolving\<lparr> startContinuousRecognitionAsync := Some (Rejection ''offline'') \<rparr>) fresh
      [AudioSourceReady]) = [Error (Caught (Rejection ''offline''))] \<and>
   dispatched (start cognitiveServiceEventResultToWebSpeechRecognitionResultList defaults
      (resolving\<lparr> stopContinuousRecognitionAsync := [(1, Rejection ''closed'')] \<rparr>) fresh
      ([AudioSourceReady] @ Abort # [AudioSourceOff])) =
     [CognitiveServices AudioSourceReady, Start, AudioStart, CognitiveServices Abort,
      Error (Caught (Rejection ''closed''))] \<and>
   dispatched (start cognitiveServiceEventResultToWebSpeechRecognitionResultList (defaults\<lparr> maxAlternatives := 0 \<rparr>) resolving fresh
      ([AudioSourceReady] @ Recognized (heard ''hello'') # [AudioSourceOff])) =
     [CognitiveServices AudioSourceReady, Start, AudioStart,
      CognitiveServices (Recognized (heard ''hello'')), SoundStart, SpeechStart,
      Error (Caught TypeError)]"
proof -
  have w1: "dispatched (start cognitiveServiceEventResultToWebSpeechRecognitionResultList defaults
      (resolving\<lparr> createRecognizer := Some (Rejection ''token rejected'') \<rparr>) fresh
      [AudioSourceReady]) = [Error (Caught (Rejection ''token rejected''))]"
    using start_catches_failure [where toResultList = cognitiveServiceEventResultToWebSpeechRecognitionResultList and cfg = defaults and c = fresh
        and env = "resolving\<lparr> createRecognizer := Some (Rejection ''token rejected'') \<rparr>"
        and f = "Rejection ''token rejected''" and queue = "[AudioSourceReady]"]
    by simp
  have w2: "dispatched (start cognitiveServiceEventResultToWebSpeechRecognitionResultList defaults
      (resolving\<lparr> startContinuousRecognitionAsync := Some (Rejection ''offline'') \<rparr>) fresh
      [AudioSourceReady]) = [Error (Caught (Rejection ''offline''))]"
    using start_catches_failure [where toResultList = cognitiveServiceEventResultToWebSpeechRecognitionResultList and cfg = defaults and c = fresh
        and env = "resolving\<lparr> startContinuousRecognitionAsync := Some (Rejection ''offline'') \<rparr>"
        and f = "Rejection ''offline''" and queue = "[AudioSourceReady]"]
    by (simp add: resolving_def)
  have "\<exists>s. run_loop cognitiveServiceEventResultToWebSpeechRecognitionResultList defaults
      (resolving\<lparr> stopContinuousRecognitionAsync := [(1, Rejection ''closed'')] \<rparr>)
      (initial fresh) [AudioSourceReady] = Waiting s \<and> loop s = 1 \<and>
      dispatched s = [CognitiveServices AudioSourceReady, Start, AudioStart]"
    by (simp add: run_simps)
  then obtain s where s: "run_loop cognitiveServiceEventResultToWebSpeechRecognitionResultList defaults
      (resolving\<lparr> stopContinuousRecognitionAsync := [(1, Rejection ''closed'')] \<rparr>)
      (initial fresh) [AudioSourceReady] = Waiting s" "loop s = 1"
      "dispatched s = [CognitiveServices AudioSourceReady, Start, AudioStart]" by blast
  have w3: "dispatched (start cognitiveServiceEventResultToWebSpeechRecognitionResultList defaults
      (resolving\<lparr> stopContinuousRecognitionAsync := [(1, Rejection ''closed'')] \<rparr>) fresh
      ([AudioSourceReady] @ Abort # [AudioSourceOff])) =
     [CognitiveServices AudioSourceReady, Start, AudioStart, CognitiveServices Abort,
      Error (Caught (Rejection ''closed''))]"
    using s start_catches_failure [where toResultList = cognitiveServiceEventResultToWebSpeechRecognitionResultList and cfg = defaults and c = fresh
        and env = "resolving\<lparr> stopContinuousRecognitionAsync := [(1, Rejection ''closed'')] \<rparr>"
        and f = "Rejection ''closed''" and pre = "[AudioSourceReady]" and s = s
        and rest = "[AudioSourceOff]"]
    by (simp add: resolving_def)
  have "\<exists>s. run_loop cognitiveServiceEventResultToWebSpeechRecognitionResultList (defaults\<lparr> maxAlternatives := 0 \<rparr>) resolving
      (initial fresh) [AudioSourceReady] = Waiting s \<and> loop s = 1 \<and>
      dispatched s = [CognitiveServices AudioSourceReady, Start, AudioStart] \<and>
      audioStarted s \<and> \<not> soundStarted s \<and> \<not> speechStarted s"
    by (simp add: run_simps)
  then obtain s' where s': "run_loop cognitiveServiceEventResultToWebSpeechRecognitionResultList (defaults\<lparr> maxAlternatives := 0 \<rparr>) resolving
      (initial fresh) [AudioSourceReady] = Waiting s'" "loop s' = 1"
      "dispatched s' = [CognitiveServices AudioSourceReady, Start, AudioStart]"
      "audioStarted s'" "\<not> soundStarted s'" "\<not> speechStarted s'" by blast
  have alt: "reason (heard ''hello'') \<noteq> NoMatch"
    "alternatives (cognitiveServiceEventResultToWebSpeechRecognitionResultList (heard ''hello'') (maxAlternatives (defaults\<lparr> maxAlternatives := 0 \<rparr>))
       (textNormalization (defaults\<lparr> maxAlternatives := 0 \<rparr>))) = []"
    by (simp_all add: heard_def defaults_def
          cognitiveServiceEventResultToWebSpeechRecognitionResultList_def)
  have w4: "dispatched (start cognitiveServiceEventResultToWebSpeechRecognitionResultList (defaults\<lparr> maxAlternatives := 0 \<rparr>) resolving fresh
      ([AudioSourceReady] @ Recognized (heard ''hello'') # [AudioSourceOff])) =
     [CognitiveServices AudioSourceReady, Start, AudioStart,
      CognitiveServices (Recognized (heard ''hello'')), SoundStart, SpeechStart,
      Error (Caught TypeError)]"
    using s' alt start_catches_failure [where toResultList = cognitiveServiceEventResultToWebSpeechRecognitionResultList
        and cfg = "defaults\<lparr> maxAlternatives := 0 \<rparr>" and c = fresh and env = resolving
        and pre = "[AudioSourceReady]" and s = s' and r = "heard ''hello''"
        and rest = "[AudioSourceOff]"]
    by (simp add: resolving_def)
  show ?thesis using w1 w2 w3 w4 by blast
qed

subsection \<open>C9: the amplitude is inspected before the muted flag\<close>

text \<open>
  C9. For every chunk read while \<^verbatim>\<open>muted\<close> is true, if the average absolute amplitude of
  its 16-bit samples exceeds 150 and the \<^verbatim>\<open>onAudibleChunk\<close> callback is armed, the
  callback fires: \<^verbatim>\<open>firstAudibleChunk\<close> is pushed on the queue and the callback is
  disarmed, while the caller receives the zero-length chunk marked as the end. When the
  loop dequeues that event it goes on and the last event it dispatches is
  \<^verbatim>\<open>soundstart\<close>.
\<close>

theorem audible_chunk_detected_while_muted:
  assumes "muted c" and "onAudibleChunk c"
    and "averageAmplitude (buffer chunk) = Inr amplitude" and "exceeds amplitude 150"
  shows "read (Inr chunk) now c =
           Inr (\<lparr> buffer = Some [], isEnd = True, timeReceived = now \<rparr>,
                c\<lparr> onAudibleChunk := False \<rparr>, [FirstAudibleChunk]) \<and>
         fst (body toResultList cfg env FirstAudibleChunk s) = Next \<and>
         last (dispatched (snd (body toResultList cfg env FirstAudibleChunk s))) = SoundStart"
  using assms
  by (simp add: read_def improviseAsync_def improviser_def body_FirstAudibleChunk)

text \<open>A muted read of two samples of amplitude 1000, with the callback armed.\<close>

theorem audible_chunk_detected_while_muted_witness:
  "averageAmplitude (Some [0xE8, 0x03, 0x18, 0xFC]) = Inr (Some 1000) \<and>
   exceeds (Some 1000) 150 \<and>
   read (Inr \<lparr> buffer = Some [0xE8, 0x03, 0x18, 0xFC], isEnd = False, timeReceived = 7 \<rparr>) 9
     \<lparr> muted = True, onAudibleChunk = True \<rparr> =
     Inr (\<lparr> buffer = Some [], isEnd = True, timeReceived = 9 \<rparr>,
          \<lparr> muted = True, onAudibleChunk = False \<rparr>, [FirstAudibleChunk]) \<and>
   last (dispatched (snd (body cognitiveServiceEventResultToWebSpeechRecognitionResultList
      defaults resolving FirstAudibleChunk (initial fresh)))) = SoundStart"
proof -
  have a: "averageAmplitude (buffer \<lparr> buffer = Some [0xE8, 0x03, 0x18, 0xFC], isEnd = False,
      timeReceived = 7 \<rparr>) = Inr (Some 1000)"
    by (simp add: averageAmplitude_def Int16Array_def word_cat_eq)
  have e: "exceeds (Some 1000) 150" by (simp add: exceeds_def)
  have m: "muted \<lparr> muted = True, onAudibleChunk = True \<rparr>"
    "onAudibleChunk \<lparr> muted = True, onAudibleChunk = True \<rparr>" by simp_all
  show ?thesis
    using a e audible_chunk_detected_while_muted [OF m a e,
      where now = 9 and toResultList = cognitiveServiceEventResultToWebSpeechRecognitionResultList
        and cfg = defaults and env = resolving and s = "initial fresh"]
    by simp
qed

subsection \<open>C10: the factory without credentials or without WebRTC\<close>

text \<open>
  C10. Without a credential, or with a \<^verbatim>\<open>window.navigator\<close> that lacks \<^verbatim>\<open>mediaDevices\<close> or
  \<^verbatim>\<open>getUserMedia\<close>, the factory returns an object with no key after one warning
  (\<open>factory_guards\<close>). But an environment without WebRTC may have no global
  \<^verbatim>\<open>window\<close> at all, a case the constructor of \<^verbatim>\<open>SpeechRecognition\<close> tests for with
  \<^verbatim>\<open>typeof window\<close>. There, with a subscription key given, the factory does not
  return the empty object: it throws a ReferenceError.
\<close>

theorem factory_throws_without_window:
  "createSpeechRecognitionPonyfill
     \<lparr> authorizationToken = Undefined, subscriptionKey = Str ''key'', enableTelemetry = None,
       looseEvent = None, looseEvents_option = None \<rparr>
     \<lparr> window = None \<rparr> = Inl ReferenceError"
  by (simp add: createSpeechRecognitionPonyfill_def truthy_def)

end
